theory Spec2Isabelle
  imports Main "HOL-Library.Word" "HOL-Library.Sublist"
begin

unbundle bit_operations_syntax

section \<open>Python values, exceptions and string helpers\<close>

text \<open>
  The module \<open>pyroute2/netlink/rtnl/ifinfmsg/compat.py\<close> is embedded function by
  function. Exceptions are values: every function that can raise returns a sum whose
  left injection is the exception. \<open>OSError\<close> carries its errno (in Python 3,
  \<open>IOError\<close> is \<open>OSError\<close>); \<open>CalledProcessError\<close> carries the exit status
  that \<open>subprocess.check_call\<close> saw.
\<close>

datatype exn =
    OSError int
  | NetlinkError int string
  | ValueError string
  | CalledProcessError int
  | AttributeError
  | TypeError
  | IndexError
  | KeyError
  | RuntimeError
  | UnicodeEncodeError

definition ENOENT :: int where "ENOENT = 2"
definition EOPNOTSUPP :: int where "EOPNOTSUPP = 95"

text \<open>
  An attribute value is an integer, a string or a nested attribute list; a message's
  \<open>attrs\<close> is a Python list of \<open>[name, value]\<close> pairs, in order, duplicates
  possible. \<open>get_attr\<close> returns the value of the first pair with the name, or
  \<open>None\<close>.
\<close>

datatype nla = NInt int | NStr string | NNest "(string \<times> nla) list"

type_synonym attrs = "(string \<times> nla) list"

type_synonym bytes = "8 word list"

fun get_attr :: "string \<Rightarrow> attrs \<Rightarrow> nla option" where
  "get_attr n [] = None"
| "get_attr n ((k, v) # xs) = (if k = n then Some v else get_attr n xs)"

text \<open>
  \<open>li['attrs'].append(...)\<close> on the object that \<open>get_attr\<close> returned mutates that
  object inside the message: functionally, the first pair with the name gets the new value.
\<close>

fun set_attr :: "string \<Rightarrow> nla \<Rightarrow> attrs \<Rightarrow> attrs" where
  "set_attr n w [] = []"
| "set_attr n w ((k, v) # xs) = (if k = n then (k, w) # xs else (k, v) # set_attr n w xs)"

text \<open>Decimal rendering of an integer, as \<open>'%s' % i\<close> and \<open>str(i)\<close> give it.\<close>

definition digit_char :: "nat \<Rightarrow> char" where
  "digit_char d = char_of (of_char (CHR ''0'') + d)"

fun str_nat :: "nat \<Rightarrow> string" where
  "str_nat n = (if n < 10 then [digit_char n] else str_nat (n div 10) @ [digit_char (n mod 10)])"

declare str_nat.simps [simp del]

definition str_int :: "int \<Rightarrow> string" where
  "str_int i = (if i < 0 then CHR ''-'' # str_nat (nat (- i)) else str_nat (nat i))"

text \<open>
  \<open>'%s' % x\<close> for the values this module formats: a string is itself, an integer is
  its decimal rendering, \<open>None\<close> is the text \<open>None\<close>. The text of a nested attribute
  object is made by the netlink library, outside this module: it is the parameter
  \<open>str_nested\<close>.
\<close>

definition fmt_s :: "(attrs \<Rightarrow> string) \<Rightarrow> nla option \<Rightarrow> string" where
  "fmt_s str_nested x =
     (case x of
        None \<Rightarrow> ''None''
      | Some (NStr s) \<Rightarrow> s
      | Some (NInt i) \<Rightarrow> str_int i
      | Some (NNest a) \<Rightarrow> str_nested a)"

text \<open>
  Python's whitespace for \<open>str.split()\<close> and for the blanks \<open>int()\<close> strips, over
  one-byte characters: space, tab, newline, vertical tab, form feed, carriage return and
  the separators 0x1c to 0x1f.
\<close>

definition is_space :: "char \<Rightarrow> bool" where
  "is_space c = (let n = (of_char c :: nat) in n = 32 \<or> (9 \<le> n \<and> n \<le> 13) \<or> (28 \<le> n \<and> n \<le> 31))"

definition is_digit :: "char \<Rightarrow> bool" where
  "is_digit c = (let n = (of_char c :: nat) in 48 \<le> n \<and> n \<le> 57)"

definition digit_val :: "char \<Rightarrow> nat" where
  "digit_val c = of_char c - 48"

text \<open>\<open>value.split()\<close>: the maximal runs of non-blank characters.\<close>

fun split_acc :: "string \<Rightarrow> string \<Rightarrow> string list" where
  "split_acc cur [] = (if cur = [] then [] else [rev cur])"
| "split_acc cur (c # cs) =
     (if is_space c then (if cur = [] then split_acc [] cs else rev cur # split_acc [] cs)
      else split_acc (c # cur) cs)"

definition py_split :: "string \<Rightarrow> string list" where
  "py_split s = split_acc [] s"

text \<open>
  \<open>int(text)\<close>: blanks stripped at both ends, an optional sign, then decimal digits, a
  single underscore allowed between two digits; anything else raises \<open>ValueError\<close>
  (here \<open>None\<close>). Strings are byte strings here: the blanks and digits of Unicode
  beyond ASCII, which Python's \<open>int\<close> also takes, are outside the model (the sysfs
  files read are ASCII).
\<close>

fun parse_digits :: "string \<Rightarrow> nat \<Rightarrow> nat option" where
  "parse_digits [] acc = Some acc"
| "parse_digits (c # cs) acc =
     (if is_digit c then parse_digits cs (acc * 10 + digit_val c)
      else if c = CHR ''_'' then
        (case cs of
           [] \<Rightarrow> None
         | d # ds \<Rightarrow> if is_digit d then parse_digits cs acc else None)
      else None)"

definition parse_unsigned :: "string \<Rightarrow> nat option" where
  "parse_unsigned s =
     (case s of
        [] \<Rightarrow> None
      | c # cs \<Rightarrow> if is_digit c then parse_digits s 0 else None)"

definition strip :: "string \<Rightarrow> string" where
  "strip s = rev (dropWhile is_space (rev (dropWhile is_space s)))"

definition py_int :: "string \<Rightarrow> int option" where
  "py_int s =
     (case strip s of
        [] \<Rightarrow> None
      | c # cs \<Rightarrow>
          if c = CHR ''-'' then map_option (\<lambda>n. - int n) (parse_unsigned cs)
          else if c = CHR ''+'' then map_option int (parse_unsigned cs)
          else map_option int (parse_unsigned (c # cs)))"

section \<open>Messages, capabilities and the sysfs tree\<close>

text \<open>
  A link message as this module uses it: \<open>msg['event']\<close> (set by the marshal on
  inbound messages), \<open>msg['header']['type']\<close>, \<open>msg['index']\<close>, the attribute list
  \<open>msg['attrs']\<close> and the buffer \<open>msg.data\<close> (for a message the marshal parsed: the
  buffer the marshal attached to it; after \<open>reset\<close> and \<open>encode\<close>: the message's
  own encoding). The netlink message class creates
  \<open>attrs\<close> as a list for every message, so the test \<open>'attrs' in msg\<close> of
  \<open>compat_fix_attrs\<close> holds for each message the marshal hands over.
\<close>

record ifinfmsg =
  msg_event :: string
  msg_type :: int
  msg_index :: int
  msg_attrs :: attrs
  msg_data :: bytes

record capabilities =
  provide_master :: bool
  create_bond :: bool
  create_bridge :: bool

text \<open>
  What the netlink library supplies and this module only uses: the attribute tables
  \<open>bridge_data.nla_map\<close> and \<open>bond_data.nla_map\<close> (the names, in order),
  \<open>nla2name\<close> of each of the two classes (the decoder gives an info-data block the
  class of its kind), the text of a nested attribute, the marshal's \<open>parse\<close>, the
  decoder of one request and the encoder (\<open>msg.reset(); msg.encode(); msg.data\<close>).
  \<open>teamd_config name\<close> is the text \<open>json.dumps\<close> makes of the team daemon's
  configuration dictionary (device \<open>name\<close>, runner \<open>activebackup\<close>, link watch
  \<open>ethtool\<close>).
\<close>

record tables =
  bridge_nla_map :: "string list"
  bond_nla_map :: "string list"
  bridge_nla2name :: "string \<Rightarrow> string"
  bond_nla2name :: "string \<Rightarrow> string"
  str_nested :: "attrs \<Rightarrow> string"
  teamd_config :: "nla option \<Rightarrow> string"
  parse :: "bytes \<Rightarrow> ifinfmsg list"
  decode :: "bytes \<Rightarrow> ifinfmsg"
  encode :: "ifinfmsg \<Rightarrow> bytes"

text \<open>
  Reading sysfs does not change it, so the enrichment sees a snapshot: \<open>open(path)\<close>
  followed by \<open>read()\<close> either fails at the open (\<open>IOError\<close> with its errno), fails
  at the read, or gives the text; \<open>os.listdir\<close> gives the entries or fails with an errno.
\<close>

datatype file_result = Open_error int | Read_error int | Text string

record sysfs =
  open_read :: "string \<Rightarrow> file_result"
  listdir :: "string \<Rightarrow> int + string list"

definition BRIDGE_MASTER :: "string \<Rightarrow> string" where
  "BRIDGE_MASTER name = ''/sys/class/net/'' @ name @ ''/brport/bridge/ifindex''"

definition BONDING_MASTER :: "string \<Rightarrow> string" where
  "BONDING_MASTER name = ''/sys/class/net/'' @ name @ ''/master/ifindex''"

definition BONDING_MASTERS :: string where
  "BONDING_MASTERS = ''/sys/class/net/bonding_masters''"

definition BONDING_SLAVES :: "string \<Rightarrow> string" where
  "BONDING_SLAVES name = ''/sys/class/net/'' @ name @ ''/bonding/slaves''"

definition IFNAMSIZ :: nat where "IFNAMSIZ = 16"

section \<open>Attribute enrichment\<close>

text \<open>
  \<open>compat_get_master\<close>: the first of the two paths whose \<open>open\<close> does not raise
  \<open>IOError\<close> is read and parsed by \<open>int\<close>; with no such path the function returns
  \<open>None\<close>. A failing \<open>read\<close> propagates as \<open>OSError\<close>, a text that is not an
  integer as \<open>ValueError\<close>. (The retry with the name encoded to UTF-8 concerns
  \<open>UnicodeEncodeError\<close> on one platform; names are byte strings here.)
\<close>

fun open_first :: "sysfs \<Rightarrow> string list \<Rightarrow> file_result option" where
  "open_first fs [] = None"
| "open_first fs (p # ps) =
     (case open_read fs p of
        Open_error e \<Rightarrow> open_first fs ps
      | r \<Rightarrow> Some r)"

definition compat_get_master :: "tables \<Rightarrow> sysfs \<Rightarrow> nla option \<Rightarrow> exn + int option" where
  "compat_get_master T fs name =
     (case open_first fs [BRIDGE_MASTER (fmt_s (str_nested T) name),
                          BONDING_MASTER (fmt_s (str_nested T) name)] of
        None \<Rightarrow> Inr None
      | Some (Open_error e) \<Rightarrow> Inr None
      | Some (Read_error e) \<Rightarrow> Inl (OSError e)
      | Some (Text s) \<Rightarrow>
          (case py_int s of
             None \<Rightarrow> Inl (ValueError ''invalid literal for int()'')
           | Some m \<Rightarrow> Inr (Some m)))"

text \<open>
  \<open>get_interface_type\<close>: \<open>os.listdir\<close> of the interface's sysfs directory; errno 2
  gives \<open>unknown\<close>, any other \<open>OSError\<close> is raised again.
\<close>

definition get_interface_type :: "tables \<Rightarrow> sysfs \<Rightarrow> nla option \<Rightarrow> exn + string" where
  "get_interface_type T fs name =
     (case listdir fs (''/sys/class/net/'' @ fmt_s (str_nested T) name @ ''/'') of
        Inl e \<Rightarrow> if e = 2 then Inr ''unknown'' else Inl (OSError e)
      | Inr ifattrs \<Rightarrow>
          if ''bonding'' \<in> set ifattrs then Inr ''bond''
          else if ''bridge'' \<in> set ifattrs then Inr ''bridge''
          else Inr ''unknown'')"

text \<open>
  \<open>compat_fix_attrs\<close> mutates the message in place and may raise after a mutation, so
  each part returns the exception (if any) together with the message as it then stands.

  Lines 67 to 70, "fix master": gated by the capability alone.
\<close>

definition fix_master :: "tables \<Rightarrow> sysfs \<Rightarrow> capabilities \<Rightarrow> nla option \<Rightarrow> ifinfmsg \<Rightarrow> exn option \<times> ifinfmsg" where
  "fix_master T fs nl ifname msg =
     (if \<not> provide_master nl then
        (case compat_get_master T fs ifname of
           Inl e \<Rightarrow> (Some e, msg)
         | Inr None \<Rightarrow> (None, msg)
         | Inr (Some master) \<Rightarrow>
             (None, msg\<lparr>msg_attrs := msg_attrs msg @ [(''IFLA_MASTER'', NInt master)]\<rparr>))
      else (None, msg))"

text \<open>
  Lines 73 to 84, "fix linkinfo and kind": returns the kind (\<open>None\<close> is not possible
  after this part: a kind read from the message is some value, a probed one is a string).
\<close>

definition fix_linkinfo :: "tables \<Rightarrow> sysfs \<Rightarrow> nla option \<Rightarrow> ifinfmsg \<Rightarrow> (exn + nla) \<times> ifinfmsg" where
  "fix_linkinfo T fs ifname msg =
     (case get_attr ''IFLA_LINKINFO'' (msg_attrs msg) of
        Some (NNest li) \<Rightarrow>
          (case get_attr ''IFLA_INFO_KIND'' li of
             Some kind \<Rightarrow> (Inr kind, msg)
           | None \<Rightarrow>
               (case get_interface_type T fs ifname of
                  Inl e \<Rightarrow> (Inl e, msg)
                | Inr kind \<Rightarrow>
                    (Inr (NStr kind),
                     msg\<lparr>msg_attrs := set_attr ''IFLA_LINKINFO''
                        (NNest (li @ [(''IFLA_INFO_KIND'', NStr kind)])) (msg_attrs msg)\<rparr>)))
      | Some _ \<Rightarrow> (Inl AttributeError, msg)
      | None \<Rightarrow>
          (case get_interface_type T fs ifname of
             Inl e \<Rightarrow> (Inl e, msg)
           | Inr kind \<Rightarrow>
               (Inr (NStr kind),
                msg\<lparr>msg_attrs := msg_attrs msg @
                   [(''IFLA_LINKINFO'', NNest [(''IFLA_INFO_KIND'', NStr kind)])]\<rparr>)))"

text \<open>
  Lines 99 to 107, one turn of the loop over the attribute table: the bare \<open>except\<close>
  drops the attribute on any failure (open, read, \<open>split()[1]\<close>, \<open>int\<close>).
\<close>

definition read_command :: "sysfs \<Rightarrow> string \<Rightarrow> string \<Rightarrow> (string \<times> nla) option" where
  "read_command fs path cmd =
     (case open_read fs path of
        Text v \<Rightarrow>
          (if cmd = ''IFLA_BOND_MODE'' then
             (case py_split v of
                a # b # rest \<Rightarrow> map_option (\<lambda>i. (cmd, NInt i)) (py_int b)
              | _ \<Rightarrow> None)
           else map_option (\<lambda>i. (cmd, NInt i)) (py_int v))
      | _ \<Rightarrow> None)"

text \<open>
  Lines 86 to 109, "fetch specific interface data". The guard is the source's: the kind
  is bridge or bond, and the list of the link-info's \<open>IFLA_INFO_DATA\<close> pairs is
  non-empty.
\<close>

definition fetch_data :: "tables \<Rightarrow> sysfs \<Rightarrow> nla option \<Rightarrow> nla \<Rightarrow> ifinfmsg \<Rightarrow> exn option \<times> ifinfmsg" where
  "fetch_data T fs ifname kind msg =
     (case get_attr ''IFLA_LINKINFO'' (msg_attrs msg) of
        Some (NNest li) \<Rightarrow>
          (if (kind = NStr ''bridge'' \<or> kind = NStr ''bond'') \<and>
              filter (\<lambda>x. fst x = ''IFLA_INFO_DATA'') li \<noteq> [] then
             (let commands =
                (if kind = NStr ''bridge'' then
                   List.map_filter (\<lambda>cmd. read_command fs
                      (''/sys/class/net/'' @ fmt_s (str_nested T) ifname @ ''/bridge/'' @ bridge_nla2name T cmd) cmd)
                      (bridge_nla_map T)
                 else
                   List.map_filter (\<lambda>cmd. read_command fs
                      (''/sys/class/net/'' @ fmt_s (str_nested T) ifname @ ''/bonding/'' @ bond_nla2name T cmd) cmd)
                      (bond_nla_map T))
              in if commands \<noteq> [] then
                   (None, msg\<lparr>msg_attrs := set_attr ''IFLA_LINKINFO''
                      (NNest (li @ [(''IFLA_INFO_DATA'', NNest commands)])) (msg_attrs msg)\<rparr>)
                 else (None, msg))
           else (None, msg))
      | _ \<Rightarrow> (Some TypeError, msg))"

definition compat_fix_attrs :: "tables \<Rightarrow> sysfs \<Rightarrow> capabilities \<Rightarrow> ifinfmsg \<Rightarrow> exn option \<times> ifinfmsg" where
  "compat_fix_attrs T fs nl msg =
     (let ifname = get_attr ''IFLA_IFNAME'' (msg_attrs msg) in
      case fix_master T fs nl ifname msg of
        (Some e, msg1) \<Rightarrow> (Some e, msg1)
      | (None, msg1) \<Rightarrow>
          (case fix_linkinfo T fs ifname msg1 of
             (Inl e, msg2) \<Rightarrow> (Some e, msg2)
           | (Inr kind, msg2) \<Rightarrow> fetch_data T fs ifname kind msg2))"

text \<open>
  \<open>proxy_linkinfo\<close>: the loop over the parsed batch. An \<open>NLMSG_ERROR\<close> message
  contributes its own bytes and is not enriched; for any other message an \<open>OSError\<close>
  of the enrichment is dropped and the message is encoded as it stands; any other
  exception leaves the loop.
\<close>

datatype verdict = Forward bytes

fun linkinfo_loop :: "tables \<Rightarrow> sysfs \<Rightarrow> capabilities \<Rightarrow> ifinfmsg list \<Rightarrow> bytes \<Rightarrow> exn + bytes" where
  "linkinfo_loop T fs nl [] buf = Inr buf"
| "linkinfo_loop T fs nl (msg # inbox) buf =
     (if msg_event msg = ''NLMSG_ERROR'' then linkinfo_loop T fs nl inbox (buf @ msg_data msg)
      else
        (case compat_fix_attrs T fs nl msg of
           (Some (OSError e), msg') \<Rightarrow> linkinfo_loop T fs nl inbox (buf @ encode T msg')
         | (Some e, msg') \<Rightarrow> Inl e
         | (None, msg') \<Rightarrow> linkinfo_loop T fs nl inbox (buf @ encode T msg')))"

definition proxy_linkinfo :: "tables \<Rightarrow> sysfs \<Rightarrow> capabilities \<Rightarrow> bytes \<Rightarrow> exn + verdict option" where
  "proxy_linkinfo T fs nl buf =
     (case linkinfo_loop T fs nl (parse T buf) [] of
        Inl e \<Rightarrow> Inl e
      | Inr d \<Rightarrow> Inr (Some (Forward d)))"

section \<open>Effects: processes, sysfs writes, the tun device\<close>

text \<open>
  The operations that change the system are recorded, in order, with what came of each:
  a spawned process (\<open>subprocess.call\<close>, \<open>subprocess.check_call\<close>) with its argument
  vector, a text written to a file opened with \<open>open(path, 'w')\<close>, and the system calls
  on the tun control device. What the system answers is a function of the effects so far
  and of the request, so a second write of the same text may fail where the first did not.
  \<open>nl.get_links\<close> is a query over netlink: it is not recorded, but it sees the effects
  before it.
\<close>

datatype proc_result = Exit int | Spawn_error int

datatype ioctl_arg = Arg_ifr string "16 word" | Arg_nla nla

datatype effect =
    Call "string list" proc_result
  | Write string string "int option"
  | Os_open string "int option"
  | Ioctl int ioctl_arg "int option"
  | Os_close

record os =
  spawn :: "effect list \<Rightarrow> string list \<Rightarrow> proc_result"
  write_file :: "effect list \<Rightarrow> string \<Rightarrow> string \<Rightarrow> int option"
  get_links :: "effect list \<Rightarrow> nla option \<Rightarrow> exn + ifinfmsg list"
  dev_open :: "effect list \<Rightarrow> string \<Rightarrow> int option"
  dev_ioctl :: "effect list \<Rightarrow> int \<Rightarrow> ioctl_arg \<Rightarrow> int option"

text \<open>
  \<open>subprocess.call\<close> returns the exit status; \<open>subprocess.check_call\<close> raises
  \<open>CalledProcessError\<close> on a non-zero status. Both raise \<open>OSError\<close> when the
  executable cannot be started.
\<close>

definition subprocess_call :: "os \<Rightarrow> string list \<Rightarrow> effect list \<Rightarrow> (exn + int) \<times> effect list" where
  "subprocess_call sys argv h =
     (case spawn sys h argv of
        Exit rc \<Rightarrow> (Inr rc, h @ [Call argv (Exit rc)])
      | Spawn_error e \<Rightarrow> (Inl (OSError e), h @ [Call argv (Spawn_error e)]))"

definition check_call :: "os \<Rightarrow> string list \<Rightarrow> effect list \<Rightarrow> (exn + unit) \<times> effect list" where
  "check_call sys argv h =
     (case spawn sys h argv of
        Exit rc \<Rightarrow>
          (if rc = 0 then (Inr (), h @ [Call argv (Exit rc)])
           else (Inl (CalledProcessError rc), h @ [Call argv (Exit rc)]))
      | Spawn_error e \<Rightarrow> (Inl (OSError e), h @ [Call argv (Spawn_error e)]))"

text \<open>\<open>with open(path, 'w') as f: f.write(text)\<close>.\<close>

definition write_text :: "os \<Rightarrow> string \<Rightarrow> string \<Rightarrow> effect list \<Rightarrow> (exn + unit) \<times> effect list" where
  "write_text sys path txt h =
     (case write_file sys h path txt of
        None \<Rightarrow> (Inr (), h @ [Write path txt None])
      | Some e \<Rightarrow> (Inl (OSError e), h @ [Write path txt (Some e)]))"

text \<open>
  Modelled from the spec: the decorator \<open>map_enoent\<close> of \<open>pyroute2.common\<close>, which is
  not in this module. The executor table gives a missing executable of the team tools an
  EOPNOTSUPP-class error: an \<open>OSError\<close> with errno ENOENT becomes an \<open>OSError\<close> with
  errno EOPNOTSUPP, and any other outcome passes through.
\<close>

definition map_enoent :: "(exn + 'a) \<times> effect list \<Rightarrow> (exn + 'a) \<times> effect list" where
  "map_enoent r =
     (case r of
        (Inl (OSError e), h) \<Rightarrow> if e = ENOENT then (Inl (OSError EOPNOTSUPP), h) else r
      | _ \<Rightarrow> r)"

text \<open>An element of an argument vector must be a string: anything else is a \<open>TypeError\<close>.\<close>

definition argv_str :: "nla option \<Rightarrow> string option" where
  "argv_str x = (case x of Some (NStr s) \<Rightarrow> Some s | _ \<Rightarrow> None)"

text \<open>Truth value of an attribute value (\<open>a or b\<close>, \<open>if x:\<close>).\<close>

definition truthy :: "nla option \<Rightarrow> bool" where
  "truthy x =
     (case x of
        None \<Rightarrow> False
      | Some (NInt i) \<Rightarrow> i \<noteq> 0
      | Some (NStr s) \<Rightarrow> s \<noteq> []
      | Some (NNest a) \<Rightarrow> True)"

section \<open>Legacy backends of the modify-link path\<close>

definition compat_set_bond :: "tables \<Rightarrow> os \<Rightarrow> nla option \<Rightarrow> string \<Rightarrow> nla \<Rightarrow> effect list \<Rightarrow> (exn + int) \<times> effect list" where
  "compat_set_bond T sys name cmd val h =
     subprocess_call sys
       [''bash'', ''-c'',
        ''echo '' @ fmt_s (str_nested T) (Some val) @ '' >/sys/class/net/'' @
          fmt_s (str_nested T) name @ ''/bonding/'' @ cmd] h"

definition compat_set_bridge :: "tables \<Rightarrow> os \<Rightarrow> nla option \<Rightarrow> string \<Rightarrow> nla \<Rightarrow> effect list \<Rightarrow> (exn + int) \<times> effect list" where
  "compat_set_bridge T sys name cmd val h =
     subprocess_call sys
       [''bash'', ''-c'',
        ''echo '' @ fmt_s (str_nested T) (Some val) @ '' >/sys/class/net/'' @
          fmt_s (str_nested T) name @ ''/bridge/'' @ cmd] h"

text \<open>
  The port executors return \<open>True\<close> (forward) or \<open>None\<close> (done here): the result is
  \<open>bool option\<close>.
\<close>

definition manage_team_port :: "os \<Rightarrow> string \<Rightarrow> nla option \<Rightarrow> nla option \<Rightarrow> effect list \<Rightarrow> (exn + bool option) \<times> effect list" where
  "manage_team_port sys cmd master ifname h =
     map_enoent
       (case (argv_str master, argv_str ifname) of
          (Some m, Some p) \<Rightarrow>
            (case check_call sys [''teamdctl'', m, ''port'', if cmd = ''del'' then ''remove'' else ''add'', p] h of
               (Inl e, h') \<Rightarrow> (Inl e, h')
             | (Inr u, h') \<Rightarrow> (Inr None, h'))
        | _ \<Rightarrow> (Inl TypeError, h))"

definition compat_bridge_port :: "os \<Rightarrow> capabilities \<Rightarrow> string \<Rightarrow> nla option \<Rightarrow> nla option \<Rightarrow> effect list \<Rightarrow> (exn + bool option) \<times> effect list" where
  "compat_bridge_port sys nl cmd master port h =
     (if create_bridge nl then (Inr (Some True), h)
      else
        (case (argv_str master, argv_str port) of
           (Some m, Some p) \<Rightarrow>
             (case check_call sys [''brctl'', cmd @ ''if'', m, p] h of
                (Inl e, h') \<Rightarrow> (Inl e, h')
              | (Inr u, h') \<Rightarrow> (Inr None, h'))
         | _ \<Rightarrow> (Inl TypeError, h)))"

definition compat_bond_port :: "tables \<Rightarrow> os \<Rightarrow> capabilities \<Rightarrow> string \<Rightarrow> nla option \<Rightarrow> nla option \<Rightarrow> effect list \<Rightarrow> (exn + bool option) \<times> effect list" where
  "compat_bond_port T sys nl cmd master port h =
     (if create_bond nl then (Inr (Some True), h)
      else
        (case map_of [(''add'', ''+''), (''del'', ''-'')] cmd of
           None \<Rightarrow> (Inl KeyError, h)
         | Some c \<Rightarrow>
             (case write_text sys (BONDING_SLAVES (fmt_s (str_nested T) master))
                     (c @ fmt_s (str_nested T) port) h of
                (Inl e, h') \<Rightarrow> (Inl e, h')
              | (Inr u, h') \<Rightarrow> (Inr None, h'))))"

section \<open>The modify-link entry point\<close>

text \<open>
  \<open>get_interface\<close>, the local function of \<open>proxy_setlink\<close>: the first link that
  \<open>nl.get_links(index)\<close> returns (\<open>IndexError\<close> on none). An \<open>AttributeError\<close> while
  reading the kind (no link-info, or one that is no attribute object) gives the kind
  \<open>unknown\<close>.
\<close>

record interface =
  if_ifname :: "nla option"
  if_master :: "nla option"
  if_kind :: "nla option"

definition get_interface :: "os \<Rightarrow> effect list \<Rightarrow> nla option \<Rightarrow> exn + interface" where
  "get_interface sys h idx =
     (case get_links sys h idx of
        Inl e \<Rightarrow> Inl e
      | Inr [] \<Rightarrow> Inl IndexError
      | Inr (msg # rest) \<Rightarrow>
          Inr \<lparr>if_ifname = get_attr ''IFLA_IFNAME'' (msg_attrs msg),
               if_master = get_attr ''IFLA_MASTER'' (msg_attrs msg),
               if_kind =
                 (case get_attr ''IFLA_LINKINFO'' (msg_attrs msg) of
                    Some (NNest li) \<Rightarrow> get_attr ''IFLA_INFO_KIND'' li
                  | _ \<Rightarrow> Some (NStr ''unknown''))\<rparr>)"

text \<open>
  Lines 174 to 176: every pair of the info-data block is written; \<open>code\<close> becomes the
  status of the write when that is non-zero and keeps its value otherwise
  (\<open>code = func(ifname, cmd, value) or code\<close>).
\<close>

fun set_loop :: "tables \<Rightarrow> os \<Rightarrow> bool \<Rightarrow> nla option \<Rightarrow> attrs \<Rightarrow> int \<Rightarrow> effect list \<Rightarrow> (exn + int) \<times> effect list" where
  "set_loop T sys bond ifname [] code h = (Inr code, h)"
| "set_loop T sys bond ifname ((cmd, val) # rest) code h =
     (case (if bond then compat_set_bond T sys ifname (bond_nla2name T cmd) val h
            else compat_set_bridge T sys ifname (bridge_nla2name T cmd) val h) of
        (Inl e, h') \<Rightarrow> (Inl e, h')
      | (Inr rc, h') \<Rightarrow> set_loop T sys bond ifname rest (if rc \<noteq> 0 then rc else code) h')"

text \<open>
  Lines 166 to 181. \<open>infodata.get('attrs', [])\<close> needs an attribute object; on anything
  else it raises \<open>AttributeError\<close>.
\<close>

definition set_attributes :: "tables \<Rightarrow> os \<Rightarrow> nla option \<Rightarrow> nla option \<Rightarrow> nla option \<Rightarrow> effect list \<Rightarrow> (exn + unit) \<times> effect list" where
  "set_attributes T sys ifname kind infodata h =
     (if (kind = Some (NStr ''bond'') \<or> kind = Some (NStr ''bridge'')) \<and> infodata \<noteq> None then
        (case infodata of
           Some (NNest pairs) \<Rightarrow>
             (case set_loop T sys (kind = Some (NStr ''bond'')) ifname pairs 0 h of
                (Inl e, h') \<Rightarrow> (Inl e, h')
              | (Inr code, h') \<Rightarrow> if code \<noteq> 0 then (Inl (OSError code), h') else (Inr (), h'))
         | _ \<Rightarrow> (Inl AttributeError, h))
      else (Inr (), h))"

text \<open>
  Lines 184 to 205, "is it a port setup?": returns the value of \<open>forward\<close>, which
  starts as \<open>True\<close>.
\<close>

definition port_setup :: "tables \<Rightarrow> os \<Rightarrow> capabilities \<Rightarrow> ifinfmsg \<Rightarrow> nla option \<Rightarrow> effect list \<Rightarrow> (exn + bool option) \<times> effect list" where
  "port_setup T sys nl msg ifname h =
     (case get_attr ''IFLA_MASTER'' (msg_attrs msg) of
        None \<Rightarrow> (Inr (Some True), h)
      | Some master \<Rightarrow>
          (case (if master = NInt 0 then
                   (case get_interface sys h (Some (NInt (msg_index msg))) of
                      Inl e \<Rightarrow> Inl e
                    | Inr iface \<Rightarrow>
                        (case get_interface sys h (if_master iface) of
                           Inl e \<Rightarrow> Inl e
                         | Inr m \<Rightarrow> Inr (m, ''del'')))
                 else
                   (case get_interface sys h (Some master) of
                      Inl e \<Rightarrow> Inl e
                    | Inr m \<Rightarrow> Inr (m, ''add''))) of
             Inl e \<Rightarrow> (Inl e, h)
           | Inr (m, cmd) \<Rightarrow>
               (case if_kind m of
                  Some (NNest a) \<Rightarrow> (Inl TypeError, h)
                | Some (NStr k) \<Rightarrow>
                    if k = ''team'' then manage_team_port sys cmd (if_ifname m) ifname h
                    else if k = ''bridge'' then compat_bridge_port sys nl cmd (if_ifname m) ifname h
                    else if k = ''bond'' then compat_bond_port T sys nl cmd (if_ifname m) ifname h
                    else (Inr (Some True), h)
                | _ \<Rightarrow> (Inr (Some True), h))))"

text \<open>
  Lines 159 to 164: the interface name (\<open>msg.get_attr('IFLA_IFNAME') or
  get_interface(msg['index'])['ifname']\<close>), then kind and info-data of a link-info block
  that is true.
\<close>

definition setlink_ifname :: "os \<Rightarrow> ifinfmsg \<Rightarrow> effect list \<Rightarrow> exn + nla option" where
  "setlink_ifname sys msg h =
     (if truthy (get_attr ''IFLA_IFNAME'' (msg_attrs msg)) then Inr (get_attr ''IFLA_IFNAME'' (msg_attrs msg))
      else
        (case get_interface sys h (Some (NInt (msg_index msg))) of
           Inl e \<Rightarrow> Inl e
         | Inr iface \<Rightarrow> Inr (if_ifname iface)))"

definition setlink_kind_data :: "ifinfmsg \<Rightarrow> exn + (nla option \<times> nla option)" where
  "setlink_kind_data msg =
     (let linkinfo = get_attr ''IFLA_LINKINFO'' (msg_attrs msg) in
      if truthy linkinfo then
        (case linkinfo of
           Some (NNest li) \<Rightarrow> Inr (get_attr ''IFLA_INFO_KIND'' li, get_attr ''IFLA_INFO_DATA'' li)
         | _ \<Rightarrow> Inl AttributeError)
      else Inr (None, None))"

text \<open>
  \<open>proxy_setlink\<close>: \<open>imsg\<close> stands for \<open>imsg.data\<close>, the request's wire bytes. The
  function returns the forward verdict with those bytes, or \<open>None\<close>, or raises.
\<close>

definition proxy_setlink :: "tables \<Rightarrow> os \<Rightarrow> capabilities \<Rightarrow> bytes \<Rightarrow> effect list \<Rightarrow> (exn + verdict option) \<times> effect list" where
  "proxy_setlink T sys nl imsg h =
     (let msg = decode T imsg in
      case setlink_ifname sys msg h of
        Inl e \<Rightarrow> (Inl e, h)
      | Inr ifname \<Rightarrow>
          (case setlink_kind_data msg of
             Inl e \<Rightarrow> (Inl e, h)
           | Inr (kind, infodata) \<Rightarrow>
               (case set_attributes T sys ifname kind infodata h of
                  (Inl e, h1) \<Rightarrow> (Inl e, h1)
                | (Inr u, h1) \<Rightarrow>
                    (case port_setup T sys nl msg ifname h1 of
                       (Inl e, h2) \<Rightarrow> (Inl e, h2)
                     | (Inr forward, h2) \<Rightarrow>
                         (if forward \<noteq> None then (Inr (Some (Forward imsg)), h2)
                          else (Inr None, h2))))))"

section \<open>Executors of the create-link path\<close>

text \<open>
  The ioctl numbers depend on \<open>config.machine\<close>; on any other machine \<open>TUNSETIFF\<close>
  is \<open>None\<close> and the other three names are not bound.
\<close>

record tun_numbers =
  TUNSETIFF_no :: int
  TUNSETPERSIST_no :: int
  TUNSETOWNER_no :: int
  TUNSETGROUP_no :: int

definition tun_ioctls :: "string \<Rightarrow> tun_numbers option" where
  "tun_ioctls machine =
     (if machine \<in> set [''i386'', ''i686'', ''x86_64'', ''s390x''] then
        Some \<lparr>TUNSETIFF_no = 0x400454ca, TUNSETPERSIST_no = 0x400454cb,
              TUNSETOWNER_no = 0x400454cc, TUNSETGROUP_no = 0x400454ce\<rparr>
      else if machine \<in> set [''ppc64'', ''mips'', ''loongarch64''] then
        Some \<lparr>TUNSETIFF_no = 0x800454ca, TUNSETPERSIST_no = 0x800454cb,
              TUNSETOWNER_no = 0x800454cc, TUNSETGROUP_no = 0x800454ce\<rparr>
      else None)"

definition TUNSETIFF :: "string \<Rightarrow> int option" where
  "TUNSETIFF machine = map_option TUNSETIFF_no (tun_ioctls machine)"

definition TUNDEV :: string where "TUNDEV = ''/dev/net/tun''"

definition RTM_NEWLINK :: int where "RTM_NEWLINK = 16"
definition RTM_DELLINK :: int where "RTM_DELLINK = 17"

definition IFT_TUN :: "16 word" where "IFT_TUN = 0x0001"
definition IFT_TAP :: "16 word" where "IFT_TAP = 0x0002"
definition IFT_NO_PI :: "16 word" where "IFT_NO_PI = 0x1000"
definition IFT_ONE_QUEUE :: "16 word" where "IFT_ONE_QUEUE = 0x2000"
definition IFT_VNET_HDR :: "16 word" where "IFT_VNET_HDR = 0x4000"
definition IFT_MULTI_QUEUE :: "16 word" where "IFT_MULTI_QUEUE = 0x0100"

text \<open>
  Lines 355 to 364: link-info, info-data, the \<open>IFTUN_IFR\<close> flags and the mode.
  \<open>get_attr\<close> on \<open>None\<close> or on a value that is no attribute object raises
  \<open>AttributeError\<close>; a mode other than \<open>tun\<close> and \<open>tap\<close> (also an absent one)
  raises \<open>ValueError\<close>.
\<close>

definition tuntap_infodata :: "ifinfmsg \<Rightarrow> exn + attrs" where
  "tuntap_infodata msg =
     (case get_attr ''IFLA_LINKINFO'' (msg_attrs msg) of
        Some (NNest li) \<Rightarrow>
          (case get_attr ''IFLA_INFO_DATA'' li of
             Some (NNest infodata) \<Rightarrow> Inr infodata
           | _ \<Rightarrow> Inl AttributeError)
      | _ \<Rightarrow> Inl AttributeError)"

definition tuntap_mode_flags :: "attrs \<Rightarrow> exn + 16 word" where
  "tuntap_mode_flags infodata =
     (if get_attr ''IFTUN_MODE'' infodata = Some (NStr ''tun'') then Inr IFT_TUN
      else if get_attr ''IFTUN_MODE'' infodata = Some (NStr ''tap'') then Inr IFT_TAP
      else Inl (ValueError ''invalid mode''))"

text \<open>
  Lines 365 to 373: \<open>flags['no_pi']\<close> and the three others are looked up by key
  (\<open>KeyError\<close> when one is missing, \<open>TypeError\<close> when \<open>flags\<close> is no mapping).
\<close>

definition tuntap_option_flags :: "attrs \<Rightarrow> exn + 16 word" where
  "tuntap_option_flags infodata =
     (case get_attr ''IFTUN_IFR'' infodata of
        None \<Rightarrow> Inr 0
      | Some (NNest flags) \<Rightarrow>
          (case (get_attr ''no_pi'' flags, get_attr ''one_queue'' flags,
                 get_attr ''vnet_hdr'' flags, get_attr ''multi_queue'' flags) of
             (Some a, Some b, Some c, Some d) \<Rightarrow>
               Inr ((if truthy (Some a) then IFT_NO_PI else 0) OR
                    (if truthy (Some b) then IFT_ONE_QUEUE else 0) OR
                    (if truthy (Some c) then IFT_VNET_HDR else 0) OR
                    (if truthy (Some d) then IFT_MULTI_QUEUE else 0))
           | _ \<Rightarrow> Inl KeyError)
      | Some _ \<Rightarrow> Inl TypeError)"

text \<open>
  Lines 374 to 379: the name, its length check, the padding with NUL to \<open>IFNAMSIZ\<close>
  and the ASCII encoding. The two bytes of \<open>struct.pack('H', ifru_flags)\<close> are in the
  machine's byte order: the request keeps them as the 16-bit word.
\<close>

definition tuntap_ifr :: "ifinfmsg \<Rightarrow> 16 word \<Rightarrow> exn + ioctl_arg" where
  "tuntap_ifr msg ifru_flags =
     (case get_attr ''IFLA_IFNAME'' (msg_attrs msg) of
        Some (NStr ifr) \<Rightarrow>
          if length ifr > IFNAMSIZ then Inl (ValueError ''ifname too long'')
          else if \<exists>c \<in> set ifr. (of_char c :: nat) \<ge> 128 then Inl UnicodeEncodeError
          else Inr (Arg_ifr (ifr @ replicate (IFNAMSIZ - length ifr) (char_of (0::nat))) ifru_flags)
      | _ \<Rightarrow> Inl TypeError)"

text \<open>
  Lines 386 to 391: the ioctls stop at the first that raises; line 395 closes the
  descriptor either way.
\<close>

fun ioctl_seq :: "os \<Rightarrow> (int \<times> ioctl_arg) list \<Rightarrow> effect list \<Rightarrow> exn option \<times> effect list" where
  "ioctl_seq sys [] h = (None, h)"
| "ioctl_seq sys ((req, arg) # rest) h =
     (case dev_ioctl sys h req arg of
        Some e \<Rightarrow> (Some (OSError e), h @ [Ioctl req arg (Some e)])
      | None \<Rightarrow> ioctl_seq sys rest (h @ [Ioctl req arg None]))"

definition tuntap_device :: "os \<Rightarrow> tun_numbers \<Rightarrow> ioctl_arg \<Rightarrow> nla option \<Rightarrow> nla option \<Rightarrow> effect list \<Rightarrow> (exn + verdict option) \<times> effect list" where
  "tuntap_device sys no ifr user grp h =
     (case dev_open sys h TUNDEV of
        Some e \<Rightarrow> (Inl (OSError e), h @ [Os_open TUNDEV (Some e)])
      | None \<Rightarrow>
          (case ioctl_seq sys
                  ([(TUNSETIFF_no no, ifr)] @
                   (case user of None \<Rightarrow> [] | Some u \<Rightarrow> [(TUNSETOWNER_no no, Arg_nla u)]) @
                   (case grp of None \<Rightarrow> [] | Some g \<Rightarrow> [(TUNSETGROUP_no no, Arg_nla g)]) @
                   [(TUNSETPERSIST_no no, Arg_nla (NInt 1))])
                  (h @ [Os_open TUNDEV None]) of
             (Some e, h') \<Rightarrow> (Inl e, h' @ [Os_close])
           | (None, h') \<Rightarrow> (Inr None, h' @ [Os_close])))"

text \<open>
  \<open>manage_tuntap\<close>, the function under the \<open>sync\<close> decorator. (The decorator returns
  what the function returns and raises what it raises, see the last section; its pipe,
  thread and socket are not effects of this list.)
\<close>

definition manage_tuntap :: "string \<Rightarrow> os \<Rightarrow> ifinfmsg \<Rightarrow> effect list \<Rightarrow> (exn + verdict option) \<times> effect list" where
  "manage_tuntap machine sys msg h =
     (case tun_ioctls machine of
        None \<Rightarrow> (Inl (NetlinkError EOPNOTSUPP ''Arch not supported''), h)
      | Some no \<Rightarrow>
          if msg_type msg \<noteq> RTM_NEWLINK then (Inl (NetlinkError EOPNOTSUPP ''Unsupported event''), h)
          else
            (case tuntap_infodata msg of
               Inl e \<Rightarrow> (Inl e, h)
             | Inr infodata \<Rightarrow>
                 (case tuntap_mode_flags infodata of
                    Inl e \<Rightarrow> (Inl e, h)
                  | Inr mode \<Rightarrow>
                      (case tuntap_option_flags infodata of
                         Inl e \<Rightarrow> (Inl e, h)
                       | Inr opts \<Rightarrow>
                           (case tuntap_ifr msg (mode OR opts) of
                              Inl e \<Rightarrow> (Inl e, h)
                            | Inr ifr \<Rightarrow>
                                tuntap_device sys no ifr (get_attr ''IFTUN_UID'' infodata)
                                  (get_attr ''IFTUN_GID'' infodata) h)))))"

definition manage_team :: "tables \<Rightarrow> os \<Rightarrow> ifinfmsg \<Rightarrow> effect list \<Rightarrow> (exn + verdict option) \<times> effect list" where
  "manage_team T sys msg h =
     map_enoent
       (if msg_type msg \<noteq> RTM_NEWLINK then (Inl (ValueError ''wrong command type''), h)
        else
          (case check_call sys
                  [''teamd'', ''-d'', ''-n'', ''-c'',
                   teamd_config T (get_attr ''IFLA_IFNAME'' (msg_attrs msg))] h of
             (Inl e, h') \<Rightarrow> (Inl e, h')
           | (Inr u, h') \<Rightarrow> (Inr None, h')))"

definition compat_create_bridge :: "os \<Rightarrow> ifinfmsg \<Rightarrow> effect list \<Rightarrow> (exn + verdict option) \<times> effect list" where
  "compat_create_bridge sys msg h =
     (case argv_str (get_attr ''IFLA_IFNAME'' (msg_attrs msg)) of
        None \<Rightarrow> (Inl TypeError, h)
      | Some name \<Rightarrow>
          (case check_call sys [''brctl'', ''addbr'', name] h of
             (Inl e, h') \<Rightarrow> (Inl e, h')
           | (Inr u, h') \<Rightarrow> (Inr None, h')))"

definition compat_create_bond :: "tables \<Rightarrow> os \<Rightarrow> ifinfmsg \<Rightarrow> effect list \<Rightarrow> (exn + verdict option) \<times> effect list" where
  "compat_create_bond T sys msg h =
     (case write_text sys BONDING_MASTERS
             (''+'' @ fmt_s (str_nested T) (get_attr ''IFLA_IFNAME'' (msg_attrs msg))) h of
        (Inl e, h') \<Rightarrow> (Inl e, h')
      | (Inr u, h') \<Rightarrow> (Inr None, h'))"

section \<open>The create-link entry point\<close>

text \<open>
  Lines 299 to 304: \<open>kind\<close> is \<open>None\<close>, or the empty list when the link-info block
  has no \<open>IFLA_INFO_KIND\<close> pair, or the value of the first such pair. The empty list
  equals none of the four kind names, as \<open>None\<close> does, so both are \<open>None\<close> here.
  \<open>linkinfo['attrs']\<close> on a string or an integer raises \<open>TypeError\<close>.
\<close>

definition newlink_kind :: "ifinfmsg \<Rightarrow> exn + nla option" where
  "newlink_kind msg =
     (case get_attr ''IFLA_LINKINFO'' (msg_attrs msg) of
        None \<Rightarrow> Inr None
      | Some (NNest li) \<Rightarrow>
          (case map snd (filter (\<lambda>x. fst x = ''IFLA_INFO_KIND'') li) of
             [] \<Rightarrow> Inr None
           | k # ks \<Rightarrow> Inr (Some k))
      | Some _ \<Rightarrow> Inl TypeError)"

definition proxy_newlink :: "tables \<Rightarrow> string \<Rightarrow> os \<Rightarrow> capabilities \<Rightarrow> bytes \<Rightarrow> effect list \<Rightarrow> (exn + verdict option) \<times> effect list" where
  "proxy_newlink T machine sys nl imsg h =
     (let msg = decode T imsg in
      case newlink_kind msg of
        Inl e \<Rightarrow> (Inl e, h)
      | Inr kind \<Rightarrow>
          if kind = Some (NStr ''tuntap'') then manage_tuntap machine sys msg h
          else if kind = Some (NStr ''team'') then manage_team T sys msg h
          else if kind = Some (NStr ''bond'') \<and> \<not> create_bond nl then compat_create_bond T sys msg h
          else if kind = Some (NStr ''bridge'') \<and> \<not> create_bridge nl then compat_create_bridge sys msg h
          else (Inr (Some (Forward imsg)), h))"

section \<open>The event-synchronization wrapper\<close>

text \<open>
  \<open>sync(f)\<close> runs two threads: \<open>decorated\<close>, and \<open>monitor\<close> in the thread it
  starts. They are modelled as one transition system whose steps interleave the
  statements of the two and the kernel's notifications.

  The wrapper's program points are the statements of \<open>decorated\<close>: \<open>os.pipe()\<close>,
  \<open>t.start()\<close>, the call \<open>f(msg)\<close>, and the four statements of the \<open>finally\<close>
  block, then the exit (\<open>return ret\<close>, or the exception raised again). The
  executor's outcome \<open>out\<close> is a parameter: the value it returns or the exception it
  raises.

  The statements before the \<open>try\<close> can raise, and then the \<open>finally\<close> block does
  not run: \<open>os.pipe()\<close> with an \<open>OSError\<close> (no pipe exists then), and, with the
  pipe open, lines 249 to 253: the lookup \<open>RTM_VALUES[msg['header']['type']]\<close> with
  \<open>KeyError\<close>, and creating and starting the thread with \<open>RuntimeError\<close>. The
  wrapper then leaves at \<open>W_setup_raised\<close> with that exception. \<open>os.write\<close> and
  \<open>os.close\<close> on the wrapper's own pipe are taken to succeed.
\<close>

datatype wrapper_pc =
    W_pipe | W_start | W_call | W_write | W_join | W_close_rcmd | W_close_cmd | W_exit
  | W_setup_raised exn

text \<open>
  The local variable \<open>event\<close> of \<open>monitor\<close> holds the awaited event name when the
  thread starts; the loop \<open>for (fd, event) in events\<close> binds the same name to the
  poll mask of each ready descriptor, an integer.
\<close>

datatype pyval = PStr string | PInt int

datatype fd = Ipr | Rcmd

record notification =
  ntf_event :: string
  ntf_ifname :: "nla option"

text \<open>
  The watcher: not started; setting up the socket and the poll object; blocked in
  \<open>poll.poll()\<close>; inside the \<open>for\<close> loop with the ready descriptors still to visit;
  returned (\<open>True\<close>: from the comparison with a notification, \<open>False\<close>: from the
  \<open>else\<close> branch, the control pipe); ended by an exception of the setup.
\<close>

datatype monitor_state =
    M_unstarted
  | M_setup
  | M_poll pyval
  | M_for "(fd \<times> int) list" pyval
  | M_returned bool
  | M_raised

record 'r sync_state =
  wpc :: wrapper_pc
  mon :: monitor_state
  rcmd_open :: bool
  cmd_open :: bool
  pipe_written :: nat
  queue :: "notification list list"
  ret :: "(exn + 'r) option"

definition sync_init :: "'r sync_state" where
  "sync_init = \<lparr>wpc = W_pipe, mon = M_unstarted, rcmd_open = False, cmd_open = False,
                 pipe_written = 0, queue = [], ret = None\<rparr>"

definition terminated :: "monitor_state \<Rightarrow> bool" where
  "terminated m = (case m of M_returned b \<Rightarrow> True | M_raised \<Rightarrow> True | _ \<Rightarrow> False)"

definition bound :: "monitor_state \<Rightarrow> bool" where
  "bound m = (case m of M_poll v \<Rightarrow> True | M_for evs v \<Rightarrow> True | _ \<Rightarrow> False)"

definition ready :: "'r sync_state \<Rightarrow> fd \<Rightarrow> bool" where
  "ready s d = (case d of Ipr \<Rightarrow> queue s \<noteq> [] | Rcmd \<Rightarrow> 0 < pipe_written s)"

text \<open>
  Lines 241 and 242, with \<open>event\<close> the value the name has at that point.
\<close>

definition matches :: "pyval \<Rightarrow> nla option \<Rightarrow> notification \<Rightarrow> bool" where
  "matches event ifname msg = (PStr (ntf_event msg) = event \<and> ntf_ifname msg = ifname)"

inductive sync_step :: "string \<Rightarrow> nla option \<Rightarrow> exn + 'r \<Rightarrow> 'r sync_state \<Rightarrow> 'r sync_state \<Rightarrow> bool"
  for ev :: string and ifname :: "nla option" and out :: "exn + 'r"
where
  w_pipe: "wpc s = W_pipe \<Longrightarrow>
     sync_step ev ifname out s (s\<lparr>wpc := W_start, rcmd_open := True, cmd_open := True\<rparr>)"
| w_pipe_raise: "wpc s = W_pipe \<Longrightarrow>
     sync_step ev ifname out s (s\<lparr>wpc := W_setup_raised (OSError e)\<rparr>)"
| w_start: "wpc s = W_start \<Longrightarrow>
     sync_step ev ifname out s (s\<lparr>wpc := W_call, mon := M_setup\<rparr>)"
| w_start_raise: "wpc s = W_start \<Longrightarrow> e = KeyError \<or> e = RuntimeError \<Longrightarrow>
     sync_step ev ifname out s (s\<lparr>wpc := W_setup_raised e\<rparr>)"
| w_call: "wpc s = W_call \<Longrightarrow>
     sync_step ev ifname out s (s\<lparr>wpc := W_write, ret := Some out\<rparr>)"
| w_write: "wpc s = W_write \<Longrightarrow>
     sync_step ev ifname out s (s\<lparr>wpc := W_join, pipe_written := pipe_written s + 1\<rparr>)"
| w_join: "wpc s = W_join \<Longrightarrow> terminated (mon s) \<Longrightarrow>
     sync_step ev ifname out s (s\<lparr>wpc := W_close_rcmd\<rparr>)"
| w_close_rcmd: "wpc s = W_close_rcmd \<Longrightarrow>
     sync_step ev ifname out s (s\<lparr>wpc := W_close_cmd, rcmd_open := False\<rparr>)"
| w_close_cmd: "wpc s = W_close_cmd \<Longrightarrow>
     sync_step ev ifname out s (s\<lparr>wpc := W_exit, cmd_open := False\<rparr>)"
| m_bind: "mon s = M_setup \<Longrightarrow>
     sync_step ev ifname out s (s\<lparr>mon := M_poll (PStr ev)\<rparr>)"
| m_raise: "mon s = M_setup \<Longrightarrow>
     sync_step ev ifname out s (s\<lparr>mon := M_raised\<rparr>)"
| m_poll: "mon s = M_poll v \<Longrightarrow> evs \<noteq> [] \<Longrightarrow> distinct (map fst evs) \<Longrightarrow>
     list_all (\<lambda>e. ready s (fst e)) evs \<Longrightarrow>
     sync_step ev ifname out s (s\<lparr>mon := M_for evs v\<rparr>)"
| m_for_end: "mon s = M_for [] v \<Longrightarrow>
     sync_step ev ifname out s (s\<lparr>mon := M_poll v\<rparr>)"
| m_for_rcmd: "mon s = M_for ((Rcmd, pm) # evs) v \<Longrightarrow>
     sync_step ev ifname out s (s\<lparr>mon := M_returned False\<rparr>)"
| m_for_match: "mon s = M_for ((Ipr, pm) # evs) v \<Longrightarrow> queue s = msgs # q \<Longrightarrow>
     list_ex (matches (PInt pm) ifname) msgs \<Longrightarrow>
     sync_step ev ifname out s (s\<lparr>mon := M_returned True, queue := q\<rparr>)"
| m_for_next: "mon s = M_for ((Ipr, pm) # evs) v \<Longrightarrow> queue s = msgs # q \<Longrightarrow>
     \<not> list_ex (matches (PInt pm) ifname) msgs \<Longrightarrow>
     sync_step ev ifname out s (s\<lparr>mon := M_for evs (PInt pm), queue := q\<rparr>)"
| kernel: "bound (mon s) \<Longrightarrow>
     sync_step ev ifname out s (s\<lparr>queue := queue s @ [msgs]\<rparr>)"

definition reachable :: "string \<Rightarrow> nla option \<Rightarrow> exn + 'r \<Rightarrow> 'r sync_state \<Rightarrow> bool" where
  "reachable ev ifname out s = (sync_step ev ifname out)\<^sup>*\<^sup>* sync_init s"

section \<open>Example environment\<close>

text \<open>
  A small concrete system for the closed theorems below. The toy encoder writes one byte
  for the message type and one byte per top-level attribute (the length of its name);
  every inbound example message carries as \<open>msg_data\<close> its own encoding.
\<close>

definition ex_err :: ifinfmsg where
  "ex_err = \<lparr>msg_event = ''NLMSG_ERROR'', msg_type = 2, msg_index = 0, msg_attrs = [], msg_data = [2]\<rparr>"

definition ex_bare :: ifinfmsg where
  "ex_bare = \<lparr>msg_event = ''RTM_NEWLINK'', msg_type = 16, msg_index = 2,
     msg_attrs = [(''IFLA_IFNAME'', NStr ''eth0'')], msg_data = [16, 11]\<rparr>"

definition ex_port :: ifinfmsg where
  "ex_port = \<lparr>msg_event = ''RTM_NEWLINK'', msg_type = 16, msg_index = 2,
     msg_attrs = [(''IFLA_IFNAME'', NStr ''eth0''), (''IFLA_MASTER'', NInt 5)],
     msg_data = [16, 11, 11]\<rparr>"

definition ex_denied :: ifinfmsg where
  "ex_denied = \<lparr>msg_event = ''RTM_NEWLINK'', msg_type = 16, msg_index = 3,
     msg_attrs = [(''IFLA_IFNAME'', NStr ''eth1'')], msg_data = [16, 11]\<rparr>"

text \<open>
  \<open>eth2\<close>: its bridge-port file opens and holds no integer. \<open>eth3\<close>: no master file,
  and its sysfs directory cannot be listed (errno 13).
\<close>

definition ex_garbled :: ifinfmsg where
  "ex_garbled = \<lparr>msg_event = ''RTM_NEWLINK'', msg_type = 16, msg_index = 5,
     msg_attrs = [(''IFLA_IFNAME'', NStr ''eth2'')], msg_data = [16, 11]\<rparr>"

definition ex_locked :: ifinfmsg where
  "ex_locked = \<lparr>msg_event = ''RTM_NEWLINK'', msg_type = 16, msg_index = 6,
     msg_attrs = [(''IFLA_IFNAME'', NStr ''eth3'')], msg_data = [16, 11]\<rparr>"

definition ex_bond :: ifinfmsg where
  "ex_bond = \<lparr>msg_event = ''RTM_NEWLINK'', msg_type = 16, msg_index = 4,
     msg_attrs = [(''IFLA_IFNAME'', NStr ''bond0''),
                  (''IFLA_LINKINFO'', NNest [(''IFLA_INFO_KIND'', NStr ''bond'')])],
     msg_data = [16, 11, 13]\<rparr>"

definition ex_bond_data :: ifinfmsg where
  "ex_bond_data = \<lparr>msg_event = ''RTM_NEWLINK'', msg_type = 16, msg_index = 4,
     msg_attrs = [(''IFLA_IFNAME'', NStr ''bond0''),
                  (''IFLA_LINKINFO'', NNest [(''IFLA_INFO_KIND'', NStr ''bond''),
                     (''IFLA_INFO_DATA'', NNest [(''IFLA_BOND_MIIMON'', NInt 50)])])],
     msg_data = [16, 11, 13]\<rparr>"

text \<open>Requests: the decoder of \<open>ex_tables\<close> maps the one-byte buffers 5 to 14 to them.\<close>

definition ex_set_request :: ifinfmsg where
  "ex_set_request = \<lparr>msg_event = [], msg_type = 19, msg_index = 7,
     msg_attrs = [(''IFLA_IFNAME'', NStr ''bond0''),
                  (''IFLA_LINKINFO'', NNest [(''IFLA_INFO_KIND'', NStr ''bond''),
                     (''IFLA_INFO_DATA'', NNest [(''IFLA_BOND_MODE'', NInt 1),
                        (''IFLA_BOND_MIIMON'', NInt 100), (''IFLA_BOND_UNSPEC'', NInt 0)])])],
     msg_data = [5]\<rparr>"

definition ex_set_quiet :: ifinfmsg where
  "ex_set_quiet = \<lparr>msg_event = [], msg_type = 19, msg_index = 7,
     msg_attrs = [(''IFLA_IFNAME'', NStr ''bond0''),
                  (''IFLA_LINKINFO'', NNest [(''IFLA_INFO_KIND'', NStr ''bond''),
                     (''IFLA_INFO_DATA'', NNest [(''IFLA_BOND_UNSPEC'', NInt 0)])])],
     msg_data = [8]\<rparr>"

definition ex_attach :: ifinfmsg where
  "ex_attach = \<lparr>msg_event = [], msg_type = 19, msg_index = 2,
     msg_attrs = [(''IFLA_IFNAME'', NStr ''eth0''), (''IFLA_MASTER'', NInt 7)], msg_data = [6]\<rparr>"

definition ex_detach :: ifinfmsg where
  "ex_detach = \<lparr>msg_event = [], msg_type = 19, msg_index = 2,
     msg_attrs = [(''IFLA_IFNAME'', NStr ''eth0''), (''IFLA_MASTER'', NInt 0)], msg_data = [7]\<rparr>"

definition ex_tuntap :: ifinfmsg where
  "ex_tuntap = \<lparr>msg_event = [], msg_type = 16, msg_index = 0,
     msg_attrs = [(''IFLA_IFNAME'', NStr ''tap0''),
                  (''IFLA_LINKINFO'', NNest [(''IFLA_INFO_KIND'', NStr ''tuntap''),
                     (''IFLA_INFO_DATA'', NNest [(''IFTUN_MODE'', NStr ''tun''),
                        (''IFTUN_UID'', NInt 1000),
                        (''IFTUN_IFR'', NNest [(''no_pi'', NInt 1), (''one_queue'', NInt 0),
                           (''vnet_hdr'', NInt 0), (''multi_queue'', NInt 0)])])])],
     msg_data = [10]\<rparr>"

definition ex_tuntap_no_mode :: ifinfmsg where
  "ex_tuntap_no_mode = \<lparr>msg_event = [], msg_type = 16, msg_index = 0,
     msg_attrs = [(''IFLA_IFNAME'', NStr ''tap0''),
                  (''IFLA_LINKINFO'', NNest [(''IFLA_INFO_KIND'', NStr ''tuntap''),
                     (''IFLA_INFO_DATA'', NNest [(''IFTUN_UID'', NInt 1000)])])],
     msg_data = []\<rparr>"

definition ex_tuntap_long :: ifinfmsg where
  "ex_tuntap_long = \<lparr>msg_event = [], msg_type = 16, msg_index = 0,
     msg_attrs = [(''IFLA_IFNAME'', NStr ''seventeen_letters''),
                  (''IFLA_LINKINFO'', NNest [(''IFLA_INFO_KIND'', NStr ''tuntap''),
                     (''IFLA_INFO_DATA'', NNest [(''IFTUN_MODE'', NStr ''tap'')])])],
     msg_data = []\<rparr>"

definition ex_new_bond :: ifinfmsg where
  "ex_new_bond = \<lparr>msg_event = [], msg_type = 16, msg_index = 0,
     msg_attrs = [(''IFLA_IFNAME'', NStr ''bond1''),
                  (''IFLA_LINKINFO'', NNest [(''IFLA_INFO_KIND'', NStr ''bond'')])],
     msg_data = [11]\<rparr>"

definition ex_new_vlan :: ifinfmsg where
  "ex_new_vlan = \<lparr>msg_event = [], msg_type = 16, msg_index = 0,
     msg_attrs = [(''IFLA_IFNAME'', NStr ''v100''),
                  (''IFLA_LINKINFO'', NNest [(''IFLA_INFO_KIND'', NStr ''vlan'')])],
     msg_data = [12]\<rparr>"

text \<open>
  An attach request that names no interface (the name is that of the link with its index),
  and a request that both writes a bond attribute and asks for a bond master.
\<close>

definition ex_attach_unnamed :: ifinfmsg where
  "ex_attach_unnamed = \<lparr>msg_event = [], msg_type = 19, msg_index = 2,
     msg_attrs = [(''IFLA_MASTER'', NInt 7)], msg_data = [14]\<rparr>"

definition ex_attach_failing :: ifinfmsg where
  "ex_attach_failing = \<lparr>msg_event = [], msg_type = 19, msg_index = 7,
     msg_attrs = [(''IFLA_IFNAME'', NStr ''bond0''),
                  (''IFLA_LINKINFO'', NNest [(''IFLA_INFO_KIND'', NStr ''bond''),
                     (''IFLA_INFO_DATA'', NNest [(''IFLA_BOND_MODE'', NInt 1)])]),
                  (''IFLA_MASTER'', NInt 9)],
     msg_data = [13]\<rparr>"

definition ex_plain :: ifinfmsg where
  "ex_plain = \<lparr>msg_event = [], msg_type = 19, msg_index = 2, msg_attrs = [], msg_data = []\<rparr>"

text \<open>
  The example \<open>parse\<close> knows two buffers, each the concatenation of its messages'
  encodings, and attaches the whole input buffer to every message it returns as
  \<open>msg.data\<close>, as the marshal of the netlink library does.
\<close>

definition ex_tables :: tables where
  "ex_tables = \<lparr>
     bridge_nla_map = [''IFLA_BR_UNSPEC'', ''IFLA_BR_FORWARD_DELAY''],
     bond_nla_map = [''IFLA_BOND_UNSPEC'', ''IFLA_BOND_MODE'', ''IFLA_BOND_MIIMON''],
     bridge_nla2name = (\<lambda>n. if n = ''IFLA_BR_FORWARD_DELAY'' then ''forward_delay'' else ''unspec''),
     bond_nla2name = (\<lambda>n. if n = ''IFLA_BOND_MODE'' then ''mode''
                          else if n = ''IFLA_BOND_MIIMON'' then ''miimon'' else ''unspec''),
     str_nested = (\<lambda>a. ''{}''),
     teamd_config = (\<lambda>n. ''{}''),
     parse = (\<lambda>b. map (\<lambda>m. m\<lparr>msg_data := b\<rparr>)
                    (if b = [2, 16, 11, 16, 11, 11] then [ex_err, ex_locked, ex_port]
                     else if b = [2, 16, 11] then [ex_err, ex_denied] else [])),
     decode = (\<lambda>b. if b = [5] then ex_set_request
                    else if b = [6] then ex_attach
                    else if b = [7] then ex_detach
                    else if b = [8] then ex_set_quiet
                    else if b = [10] then ex_tuntap
                    else if b = [11] then ex_new_bond
                    else if b = [12] then ex_new_vlan
                    else if b = [13] then ex_attach_failing
                    else if b = [14] then ex_attach_unnamed
                    else ex_plain),
     encode = (\<lambda>m. of_int (msg_type m) # map (\<lambda>x. of_nat (length (fst x))) (msg_attrs m))\<rparr>"

definition ex_sysfs :: sysfs where
  "ex_sysfs = \<lparr>
     open_read = (\<lambda>p.
        if p = ''/sys/class/net/eth0/brport/bridge/ifindex'' then Text ''7''
        else if p = ''/sys/class/net/eth1/master/ifindex'' then Text ''4''
        else if p = ''/sys/class/net/eth2/brport/bridge/ifindex'' then Text ''none''
        else if p = ''/sys/class/net/eth2/master/ifindex'' then Text ''9''
        else if p = ''/sys/class/net/bond0/bonding/mode'' then Text ''balance-rr 0''
        else if p = ''/sys/class/net/bond0/bonding/miimon'' then Text ''100''
        else Open_error 2),
     listdir = (\<lambda>p.
        if p = ''/sys/class/net/bond0/'' then Inr [''bonding'', ''mtu'']
        else if p = ''/sys/class/net/eth1/'' then Inl 13
        else if p = ''/sys/class/net/eth3/'' then Inl 13
        else Inl 2)\<rparr>"

definition ex_caps :: capabilities where
  "ex_caps = \<lparr>provide_master = False, create_bond = False, create_bridge = False\<rparr>"

text \<open>
  The links \<open>nl.get_links\<close> knows: index 7 is the bond \<open>bond0\<close>, index 9 the
  bond \<open>bond9\<close>, index 2 is \<open>eth0\<close>, a port of \<open>bond0\<close>. Of the shell writes, the one to the bond's \<open>mode\<close> exits
  with 1 and the one to \<open>miimon\<close> with 2; everything else succeeds.
\<close>

definition ex_link_bond0 :: ifinfmsg where
  "ex_link_bond0 = \<lparr>msg_event = ''RTM_NEWLINK'', msg_type = 16, msg_index = 7,
     msg_attrs = [(''IFLA_IFNAME'', NStr ''bond0''),
                  (''IFLA_LINKINFO'', NNest [(''IFLA_INFO_KIND'', NStr ''bond'')])],
     msg_data = [16, 11, 13]\<rparr>"

definition ex_link_bond9 :: ifinfmsg where
  "ex_link_bond9 = \<lparr>msg_event = ''RTM_NEWLINK'', msg_type = 16, msg_index = 9,
     msg_attrs = [(''IFLA_IFNAME'', NStr ''bond9''),
                  (''IFLA_LINKINFO'', NNest [(''IFLA_INFO_KIND'', NStr ''bond'')])],
     msg_data = [16, 11, 13]\<rparr>"

definition ex_link_eth0 :: ifinfmsg where
  "ex_link_eth0 = \<lparr>msg_event = ''RTM_NEWLINK'', msg_type = 16, msg_index = 2,
     msg_attrs = [(''IFLA_IFNAME'', NStr ''eth0''), (''IFLA_MASTER'', NInt 7)],
     msg_data = [16, 11, 11]\<rparr>"

definition ex_os :: os where
  "ex_os = \<lparr>
     spawn = (\<lambda>h argv.
        if argv = [''bash'', ''-c'', ''echo 1 >/sys/class/net/bond0/bonding/mode''] then Exit 1
        else if argv = [''bash'', ''-c'', ''echo 100 >/sys/class/net/bond0/bonding/miimon''] then Exit 2
        else Exit 0),
     write_file = (\<lambda>h p t. None),
     get_links = (\<lambda>h i.
        if i = Some (NInt 7) then Inr [ex_link_bond0]
        else if i = Some (NInt 9) then Inr [ex_link_bond9]
        else if i = Some (NInt 2) then Inr [ex_link_eth0]
        else Inr []),
     dev_open = (\<lambda>h p. None),
     dev_ioctl = (\<lambda>h r a. None)\<rparr>"

section \<open>Notions the statements use\<close>

definition os_error_or_none :: "exn option \<Rightarrow> bool" where
  "os_error_or_none x = (case x of None \<Rightarrow> True | Some (OSError e) \<Rightarrow> True | _ \<Rightarrow> False)"

text \<open>
  The bytes the loop of \<open>proxy_linkinfo\<close> appends for one message (lines 118 to 134).
\<close>

definition linkinfo_bytes :: "tables \<Rightarrow> sysfs \<Rightarrow> capabilities \<Rightarrow> ifinfmsg \<Rightarrow> bytes" where
  "linkinfo_bytes T fs nl msg =
     (if msg_event msg = ''NLMSG_ERROR'' then msg_data msg
      else encode T (snd (compat_fix_attrs T fs nl msg)))"

text \<open>
  What the answer holds for one message of the batch. For an \<open>NLMSG_ERROR\<close> message:
  its buffer \<open>msg.data\<close> as the marshal left it. For any other message: when the
  enrichment raised nothing, the encoding of the enriched message; when it raised and had
  appended nothing, the encoding of the message as it came. (Nothing is said of a message
  whose enrichment raised after it had appended something.)
\<close>

definition chunk_ok :: "tables \<Rightarrow> sysfs \<Rightarrow> capabilities \<Rightarrow> ifinfmsg \<Rightarrow> bytes \<Rightarrow> bool" where
  "chunk_ok T fs nl msg c =
     (if msg_event msg = ''NLMSG_ERROR'' then c = msg_data msg
      else
        (case compat_fix_attrs T fs nl msg of
           (None, msg') \<Rightarrow> c = encode T msg'
         | (Some e, msg') \<Rightarrow> if msg' = msg then c = encode T msg else True))"

text \<open>
  The master index sysfs holds for an interface name: the integer in the bridge-port
  file when that file opens, else the integer in the bonding file when that one opens;
  \<open>None\<close> when neither opens, or when the file that opens cannot be read or holds no
  integer.
\<close>

definition sysfs_master :: "sysfs \<Rightarrow> string \<Rightarrow> int option" where
  "sysfs_master fs name =
     (case open_read fs (''/sys/class/net/'' @ name @ ''/brport/bridge/ifindex'') of
        Text s \<Rightarrow> py_int s
      | Read_error e \<Rightarrow> None
      | Open_error e \<Rightarrow>
          (case open_read fs (''/sys/class/net/'' @ name @ ''/master/ifindex'') of
             Text s \<Rightarrow> py_int s
           | _ \<Rightarrow> None))"

text \<open>
  The argument vector of the shell write of one (attribute, value) pair, for a bond
  (\<open>True\<close>) or a bridge.
\<close>

definition set_argv :: "tables \<Rightarrow> bool \<Rightarrow> nla option \<Rightarrow> string \<times> nla \<Rightarrow> string list" where
  "set_argv T bond ifname p =
     [''bash'', ''-c'',
      ''echo '' @ fmt_s (str_nested T) (Some (snd p)) @ '' >/sys/class/net/'' @
        fmt_s (str_nested T) ifname @
        (if bond then ''/bonding/'' @ bond_nla2name T (fst p)
         else ''/bridge/'' @ bridge_nla2name T (fst p))]"

text \<open>
  The port and the master of a port request, read off the request and the link table
  (\<open>nl.get_links\<close>), and the texts the statements below use for them.

  The port's interface name: the request's own \<open>IFLA_IFNAME\<close> when that is a non-empty
  string, else the \<open>IFLA_IFNAME\<close> of the first link \<open>nl.get_links\<close> returns for the
  request's index.
\<close>

definition first_link :: "os \<Rightarrow> effect list \<Rightarrow> nla option \<Rightarrow> ifinfmsg option" where
  "first_link sys h i = (case get_links sys h i of Inr (l # ls) \<Rightarrow> Some l | _ \<Rightarrow> None)"

definition link_name :: "ifinfmsg \<Rightarrow> string option" where
  "link_name l = (case get_attr ''IFLA_IFNAME'' (msg_attrs l) of Some (NStr n) \<Rightarrow> Some n | _ \<Rightarrow> None)"

definition port_ifname :: "os \<Rightarrow> effect list \<Rightarrow> ifinfmsg \<Rightarrow> string option" where
  "port_ifname sys h msg =
     (case get_attr ''IFLA_IFNAME'' (msg_attrs msg) of
        Some (NStr n) \<Rightarrow>
          if n \<noteq> [] then Some n
          else Option.bind (first_link sys h (Some (NInt (msg_index msg)))) link_name
      | Some (NInt i) \<Rightarrow>
          if i \<noteq> 0 then None
          else Option.bind (first_link sys h (Some (NInt (msg_index msg)))) link_name
      | Some (NNest a) \<Rightarrow> None
      | None \<Rightarrow> Option.bind (first_link sys h (Some (NInt (msg_index msg)))) link_name)"

text \<open>
  The master link of a port request with master index \<open>m\<close>: for \<open>m = 0\<close> (detach)
  the link whose index is the \<open>IFLA_MASTER\<close> of the port's own link, else (attach) the
  link with index \<open>m\<close>.
\<close>

definition master_link :: "os \<Rightarrow> effect list \<Rightarrow> ifinfmsg \<Rightarrow> int \<Rightarrow> ifinfmsg option" where
  "master_link sys h msg m =
     (if m = 0 then
        (case first_link sys h (Some (NInt (msg_index msg))) of
           None \<Rightarrow> None
         | Some port \<Rightarrow> first_link sys h (get_attr ''IFLA_MASTER'' (msg_attrs port)))
      else first_link sys h (Some (NInt m)))"

text \<open>
  A port operation carried out by a legacy backend: the team control tool or the bridge
  tool exited with 0, or the text was written to a bond's slaves file.
\<close>

definition port_op_done :: "effect \<Rightarrow> bool" where
  "port_op_done e =
     (case e of
        Call argv (Exit rc) \<Rightarrow>
          rc = 0 \<and>
          (case argv of
             [a, m, b, c, p] \<Rightarrow> a = ''teamdctl'' \<and> b = ''port'' \<and> (c = ''add'' \<or> c = ''remove'')
           | [a, c, m, p] \<Rightarrow> a = ''brctl'' \<and> (c = ''addif'' \<or> c = ''delif'')
           | _ \<Rightarrow> False)
      | Write path txt None \<Rightarrow>
          prefix ''/sys/class/net/'' path \<and> suffix ''/bonding/slaves'' path
      | _ \<Rightarrow> False)"

text \<open>
  The kind and the info-data block a request declares, and the mode a tun/tap request
  declares (\<open>None\<close> when the attribute or a block on the way to it is absent).
\<close>

definition declared_kind :: "ifinfmsg \<Rightarrow> nla option" where
  "declared_kind msg =
     (case get_attr ''IFLA_LINKINFO'' (msg_attrs msg) of
        Some (NNest li) \<Rightarrow> get_attr ''IFLA_INFO_KIND'' li
      | _ \<Rightarrow> None)"

definition declared_data :: "ifinfmsg \<Rightarrow> nla option" where
  "declared_data msg =
     (case get_attr ''IFLA_LINKINFO'' (msg_attrs msg) of
        Some (NNest li) \<Rightarrow> get_attr ''IFLA_INFO_DATA'' li
      | _ \<Rightarrow> None)"

definition declared_mode :: "ifinfmsg \<Rightarrow> nla option" where
  "declared_mode msg =
     (case get_attr ''IFLA_LINKINFO'' (msg_attrs msg) of
        Some (NNest li) \<Rightarrow>
          (case get_attr ''IFLA_INFO_DATA'' li of
             Some (NNest infodata) \<Rightarrow> get_attr ''IFTUN_MODE'' infodata
           | _ \<Rightarrow> None)
      | _ \<Rightarrow> None)"

text \<open>
  The routing of a create-link request in the words of the specification: by the declared
  kind, bond and bridge gated by their capabilities, anything else forwarded.
\<close>

datatype route = Ioctl_executor | Daemon_executor | Bond_sysfs_executor | Bridge_tool_executor | Forward_unmodified

definition route_spec :: "capabilities \<Rightarrow> nla option \<Rightarrow> route" where
  "route_spec nl kind =
     (if kind = Some (NStr ''tuntap'') then Ioctl_executor
      else if kind = Some (NStr ''team'') then Daemon_executor
      else if kind = Some (NStr ''bond'') then
        (if create_bond nl then Forward_unmodified else Bond_sysfs_executor)
      else if kind = Some (NStr ''bridge'') then
        (if create_bridge nl then Forward_unmodified else Bridge_tool_executor)
      else Forward_unmodified)"

text \<open>
  The wrapper has left: through the \<open>finally\<close> block (\<open>W_exit\<close>), or by an exception
  of a statement before the \<open>try\<close>.
\<close>

definition exited :: "'r sync_state \<Rightarrow> bool" where
  "exited s = (case wpc s of W_exit \<Rightarrow> True | W_setup_raised e \<Rightarrow> True | _ \<Rightarrow> False)"

text \<open>
  What is established when the wrapper stands at each of its program points. Before the
  thread is started and after a failed setup: no watcher, nothing written, no outcome.
  Then: the outcome of the executor is stored once the call is over; the byte is in the
  pipe once \<open>os.write\<close> is over; the watcher has ended once \<open>t.join()\<close> is over; then
  each end of the pipe is closed.
\<close>

definition sync_inv :: "exn + 'r \<Rightarrow> 'r sync_state \<Rightarrow> bool" where
  "sync_inv out s =
     (case wpc s of
        W_pipe \<Rightarrow> mon s = M_unstarted \<and> pipe_written s = 0 \<and> ret s = None
                  \<and> \<not> rcmd_open s \<and> \<not> cmd_open s
      | W_start \<Rightarrow> mon s = M_unstarted \<and> pipe_written s = 0 \<and> ret s = None
      | W_setup_raised e \<Rightarrow> mon s = M_unstarted \<and> pipe_written s = 0 \<and> ret s = None
      | W_call \<Rightarrow> mon s \<noteq> M_unstarted
      | W_write \<Rightarrow> mon s \<noteq> M_unstarted \<and> ret s = Some out
      | W_join \<Rightarrow> mon s \<noteq> M_unstarted \<and> ret s = Some out \<and> 0 < pipe_written s
      | W_close_rcmd \<Rightarrow> ret s = Some out \<and> 0 < pipe_written s \<and> terminated (mon s)
      | W_close_cmd \<Rightarrow> ret s = Some out \<and> 0 < pipe_written s \<and> terminated (mon s) \<and> \<not> rcmd_open s
      | W_exit \<Rightarrow> ret s = Some out \<and> 0 < pipe_written s \<and> terminated (mon s) \<and> \<not> rcmd_open s
                  \<and> \<not> cmd_open s)"

section \<open>Enrichment: the master index\<close>

lemma filter_set_attr:
  "n \<noteq> k \<Longrightarrow> filter (\<lambda>x. fst x = n) (set_attr k w xs) = filter (\<lambda>x. fst x = n) xs"
  by (induction xs) auto

lemma filter_other_set_attr:
  "filter (\<lambda>x. fst x \<noteq> k) (set_attr k w xs) = filter (\<lambda>x. fst x \<noteq> k) xs"
  by (induction xs) auto

lemma fix_linkinfo_keeps_rest:
  "filter (\<lambda>x. fst x \<noteq> ''IFLA_LINKINFO'') (msg_attrs (snd (fix_linkinfo T fs ifname msg)))
     = filter (\<lambda>x. fst x \<noteq> ''IFLA_LINKINFO'') (msg_attrs msg)"
  by (simp add: fix_linkinfo_def filter_other_set_attr split: option.splits nla.splits sum.splits)

lemma fetch_data_keeps_rest:
  "filter (\<lambda>x. fst x \<noteq> ''IFLA_LINKINFO'') (msg_attrs (snd (fetch_data T fs ifname kind msg)))
     = filter (\<lambda>x. fst x \<noteq> ''IFLA_LINKINFO'') (msg_attrs msg)"
  by (simp add: fetch_data_def Let_def filter_other_set_attr split: option.splits nla.splits)

text \<open>
  \<open>compat_get_master\<close> returns an index exactly when sysfs holds one, in the order
  bridge-port file, else bonding file.
\<close>

lemma compat_get_master_sysfs:
  "(case compat_get_master T fs name of Inr (Some m) \<Rightarrow> Some m | _ \<Rightarrow> None)
     = sysfs_master fs (fmt_s (str_nested T) name)"
  by (simp add: compat_get_master_def sysfs_master_def BRIDGE_MASTER_def BONDING_MASTER_def
      split: file_result.splits option.splits)

lemma fix_master_appends:
  assumes "\<not> provide_master nl"
  shows "msg_attrs (snd (fix_master T fs nl ifname msg)) =
      msg_attrs msg @
        (case sysfs_master fs (fmt_s (str_nested T) ifname) of
           Some m \<Rightarrow> [(''IFLA_MASTER'', NInt m)] | None \<Rightarrow> [])"
  using assms compat_get_master_sysfs [of T fs ifname]
  by (auto simp: fix_master_def split: sum.splits option.splits)

lemma compat_fix_attrs_rest:
  "filter (\<lambda>x. fst x \<noteq> ''IFLA_LINKINFO'') (msg_attrs (snd (compat_fix_attrs T fs nl msg)))
     = filter (\<lambda>x. fst x \<noteq> ''IFLA_LINKINFO'')
         (msg_attrs (snd (fix_master T fs nl (get_attr ''IFLA_IFNAME'' (msg_attrs msg)) msg)))"
proof -
  let ?ifname = "get_attr ''IFLA_IFNAME'' (msg_attrs msg)"
  obtain e1 m1 where a: "fix_master T fs nl ?ifname msg = (e1, m1)"
    by (cases "fix_master T fs nl ?ifname msg")
  obtain k2 m2 where b: "fix_linkinfo T fs ?ifname m1 = (k2, m2)"
    by (cases "fix_linkinfo T fs ?ifname m1")
  have m2: "filter (\<lambda>x. fst x \<noteq> ''IFLA_LINKINFO'') (msg_attrs m2)
      = filter (\<lambda>x. fst x \<noteq> ''IFLA_LINKINFO'') (msg_attrs m1)"
    using fix_linkinfo_keeps_rest [of T fs ?ifname m1] b by simp
  show ?thesis
    using a b m2 fetch_data_keeps_rest [of T fs ?ifname _ m2]
    by (cases e1; cases k2) (simp_all add: compat_fix_attrs_def)
qed

text \<open>
  C1, as the code has it. With \<open>provide_master\<close> absent, for every link message,
  whether or not it already carries \<open>IFLA_MASTER\<close> and whether or not the enrichment
  raises: outside its link-info block, the attribute list after the enrichment is the
  list the message came with, followed by one \<open>IFLA_MASTER\<close> pair exactly when sysfs
  holds a master index for the interface (the integer in
  \<open>/sys/class/net/<name>/brport/bridge/ifindex\<close> when that file opens, else the integer
  in \<open>/sys/class/net/<name>/master/ifindex\<close>), the pair carrying that index; when sysfs
  holds none, that list is unchanged.
\<close>

theorem master_appended_iff_resolved:
  assumes "\<not> provide_master nl"
  shows "filter (\<lambda>x. fst x \<noteq> ''IFLA_LINKINFO'') (msg_attrs (snd (compat_fix_attrs T fs nl msg))) =
           filter (\<lambda>x. fst x \<noteq> ''IFLA_LINKINFO'') (msg_attrs msg) @
             (case sysfs_master fs (fmt_s (str_nested T) (get_attr ''IFLA_IFNAME'' (msg_attrs msg))) of
                Some m \<Rightarrow> [(''IFLA_MASTER'', NInt m)]
              | None \<Rightarrow> [])"
  using fix_master_appends [OF assms, of T fs "get_attr ''IFLA_IFNAME'' (msg_attrs msg)" msg]
  by (simp add: compat_fix_attrs_rest split: option.splits)

theorem master_appended_iff_resolved_witness:
  "\<not> provide_master ex_caps
   \<and> sysfs_master ex_sysfs ''eth0'' = Some 7
   \<and> filter (\<lambda>x. fst x \<noteq> ''IFLA_LINKINFO'') (msg_attrs (snd (compat_fix_attrs ex_tables ex_sysfs ex_caps ex_bare)))
       = [(''IFLA_IFNAME'', NStr ''eth0''), (''IFLA_MASTER'', NInt 7)]
   \<and> sysfs_master ex_sysfs ''eth1'' = Some 4
   \<and> filter (\<lambda>x. fst x \<noteq> ''IFLA_LINKINFO'') (msg_attrs (snd (compat_fix_attrs ex_tables ex_sysfs ex_caps ex_denied)))
       = [(''IFLA_IFNAME'', NStr ''eth1''), (''IFLA_MASTER'', NInt 4)]
   \<and> sysfs_master ex_sysfs ''eth2'' = None
   \<and> fst (compat_fix_attrs ex_tables ex_sysfs ex_caps ex_garbled) = Some (ValueError ''invalid literal for int()'')
   \<and> filter (\<lambda>x. fst x \<noteq> ''IFLA_LINKINFO'') (msg_attrs (snd (compat_fix_attrs ex_tables ex_sysfs ex_caps ex_garbled)))
       = [(''IFLA_IFNAME'', NStr ''eth2'')]"
proof -
  have a: "\<not> provide_master ex_caps" by (simp add: ex_caps_def)
  have n0: "fmt_s (str_nested ex_tables) (get_attr ''IFLA_IFNAME'' (msg_attrs ex_bare)) = ''eth0''"
    by (simp add: ex_bare_def fmt_s_def)
  have n1: "fmt_s (str_nested ex_tables) (get_attr ''IFLA_IFNAME'' (msg_attrs ex_denied)) = ''eth1''"
    by (simp add: ex_denied_def fmt_s_def)
  have n2: "fmt_s (str_nested ex_tables) (get_attr ''IFLA_IFNAME'' (msg_attrs ex_garbled)) = ''eth2''"
    by (simp add: ex_garbled_def fmt_s_def)
  have s0: "sysfs_master ex_sysfs ''eth0'' = Some 7" by code_simp
  have s1: "sysfs_master ex_sysfs ''eth1'' = Some 4" by code_simp
  have s2: "sysfs_master ex_sysfs ''eth2'' = None" by code_simp
  have e2: "fst (compat_fix_attrs ex_tables ex_sysfs ex_caps ex_garbled) = Some (ValueError ''invalid literal for int()'')"
    by code_simp
  have r0: "filter (\<lambda>x. fst x \<noteq> ''IFLA_LINKINFO'') (msg_attrs (snd (compat_fix_attrs ex_tables ex_sysfs ex_caps ex_bare)))
       = [(''IFLA_IFNAME'', NStr ''eth0''), (''IFLA_MASTER'', NInt 7)]"
    using master_appended_iff_resolved [OF a, of ex_tables ex_sysfs ex_bare]
    by (simp add: n0 s0) (simp add: ex_bare_def)
  have r1: "filter (\<lambda>x. fst x \<noteq> ''IFLA_LINKINFO'') (msg_attrs (snd (compat_fix_attrs ex_tables ex_sysfs ex_caps ex_denied)))
       = [(''IFLA_IFNAME'', NStr ''eth1''), (''IFLA_MASTER'', NInt 4)]"
    using master_appended_iff_resolved [OF a, of ex_tables ex_sysfs ex_denied]
    by (simp add: n1 s1) (simp add: ex_denied_def)
  have r2: "filter (\<lambda>x. fst x \<noteq> ''IFLA_LINKINFO'') (msg_attrs (snd (compat_fix_attrs ex_tables ex_sysfs ex_caps ex_garbled)))
       = [(''IFLA_IFNAME'', NStr ''eth2'')]"
    using master_appended_iff_resolved [OF a, of ex_tables ex_sysfs ex_garbled]
    by (simp add: n2 s2) (simp add: ex_garbled_def)
  show ?thesis using a s0 s1 s2 e2 r0 r1 r2 by simp
qed

text \<open>
  The claim as stated fails on a message that already carries \<open>IFLA_MASTER\<close>: the step
  appends a second pair.
\<close>

theorem master_present_counterexample:
  "get_attr ''IFLA_MASTER'' (msg_attrs ex_port) = Some (NInt 5)
   \<and> msg_attrs (snd (fix_master ex_tables ex_sysfs ex_caps (get_attr ''IFLA_IFNAME'' (msg_attrs ex_port)) ex_port))
       = [(''IFLA_IFNAME'', NStr ''eth0''), (''IFLA_MASTER'', NInt 5), (''IFLA_MASTER'', NInt 7)]
   \<and> msg_attrs (snd (compat_fix_attrs ex_tables ex_sysfs ex_caps ex_port))
       = [(''IFLA_IFNAME'', NStr ''eth0''), (''IFLA_MASTER'', NInt 5), (''IFLA_MASTER'', NInt 7),
          (''IFLA_LINKINFO'', NNest [(''IFLA_INFO_KIND'', NStr ''unknown'')])]"
  by code_simp

section \<open>Enrichment: the info-data block\<close>

text \<open>
  C3 at the input where the code departs from it. \<open>ex_bond\<close> is a bond whose link-info
  has no info-data block, and the bond's sysfs files are readable: the enrichment returns
  the message unchanged. \<open>ex_bond_data\<close> is the same bond with an info-data block:
  sysfs is read and a second info-data block is appended. The guard of line 90 holds when
  the block is present, not when it is absent.
\<close>

theorem info_data_guard_inverted:
  "compat_fix_attrs ex_tables ex_sysfs ex_caps ex_bond = (None, ex_bond)
   \<and> msg_attrs (snd (compat_fix_attrs ex_tables ex_sysfs ex_caps ex_bond_data))
       = [(''IFLA_IFNAME'', NStr ''bond0''),
          (''IFLA_LINKINFO'', NNest [(''IFLA_INFO_KIND'', NStr ''bond''),
             (''IFLA_INFO_DATA'', NNest [(''IFLA_BOND_MIIMON'', NInt 50)]),
             (''IFLA_INFO_DATA'', NNest [(''IFLA_BOND_MODE'', NInt 0), (''IFLA_BOND_MIIMON'', NInt 100)])])]"
  by code_simp

text \<open>
  In general: a link-info block without \<open>IFLA_INFO_DATA\<close> never gets one, and no
  failing read raises (the part returns no exception whenever the link-info is there).
\<close>

lemma fetch_data_absent:
  assumes "get_attr ''IFLA_LINKINFO'' (msg_attrs msg) = Some (NNest li)"
    and "get_attr ''IFLA_INFO_DATA'' li = None"
  shows "fetch_data T fs ifname kind msg = (None, msg)"
proof -
  have "filter (\<lambda>x. fst x = ''IFLA_INFO_DATA'') li = []"
    using assms(2) by (induction li) (auto split: if_splits)
  then show ?thesis using assms(1) by (simp add: fetch_data_def)
qed

lemma fetch_data_never_raises:
  "get_attr ''IFLA_LINKINFO'' (msg_attrs msg) = Some (NNest li) \<Longrightarrow>
   fst (fetch_data T fs ifname kind msg) = None"
  by (simp add: fetch_data_def Let_def)

section \<open>The info-response path\<close>

lemma linkinfo_loop_concat:
  assumes "\<forall>msg \<in> set inbox. msg_event msg \<noteq> ''NLMSG_ERROR'' \<longrightarrow>
             os_error_or_none (fst (compat_fix_attrs T fs nl msg))"
  shows "linkinfo_loop T fs nl inbox buf = Inr (buf @ concat (map (linkinfo_bytes T fs nl) inbox))"
  using assms
proof (induction inbox arbitrary: buf)
  case Nil
  then show ?case by simp
next
  case (Cons msg inbox)
  show ?case
  proof (cases "msg_event msg = ''NLMSG_ERROR''")
    case True
    then show ?thesis using Cons by (simp add: linkinfo_bytes_def)
  next
    case False
    obtain e m' where r: "compat_fix_attrs T fs nl msg = (e, m')"
      by (cases "compat_fix_attrs T fs nl msg")
    have "os_error_or_none e" using Cons.prems False r by simp
    then show ?thesis using Cons False r
      by (auto simp: linkinfo_bytes_def os_error_or_none_def split: option.splits exn.splits)
  qed
qed

lemma linkinfo_bytes_chunk_ok:
  assumes "msg_event msg \<noteq> ''NLMSG_ERROR'' \<longrightarrow> os_error_or_none (fst (compat_fix_attrs T fs nl msg))"
  shows "chunk_ok T fs nl msg (linkinfo_bytes T fs nl msg)"
  by (cases "compat_fix_attrs T fs nl msg")
     (auto simp: chunk_ok_def linkinfo_bytes_def split: option.splits)

text \<open>
  C8, as the code has it. When the enrichment of no message of the batch raises anything
  but \<open>OSError\<close>, the answer is a forward verdict whose data is the concatenation, in
  batch order, of one chunk per message. The chunk of an \<open>NLMSG_ERROR\<close> message is its
  buffer \<open>msg.data\<close> as the marshal left it: such a message is neither enriched nor
  encoded again. The chunk of any other message whose enrichment raises nothing is the
  encoding of the enriched message. An \<open>OSError\<close> of the enrichment is caught: the
  messages after that one are processed all the same, and when the error came before
  anything was appended the chunk is the encoding of the message as it came.
\<close>

theorem linkinfo_batch:
  assumes "\<forall>msg \<in> set (parse T buf). msg_event msg \<noteq> ''NLMSG_ERROR'' \<longrightarrow>
             os_error_or_none (fst (compat_fix_attrs T fs nl msg))"
  shows "\<exists>chunks. list_all2 (chunk_ok T fs nl) (parse T buf) chunks
           \<and> proxy_linkinfo T fs nl buf = Inr (Some (Forward (concat chunks)))"
proof -
  have "list_all2 (chunk_ok T fs nl) (parse T buf) (map (linkinfo_bytes T fs nl) (parse T buf))"
    using assms by (simp add: list_all2_map2 list_all2_same linkinfo_bytes_chunk_ok)
  moreover have "proxy_linkinfo T fs nl buf =
      Inr (Some (Forward (concat (map (linkinfo_bytes T fs nl) (parse T buf)))))"
    using linkinfo_loop_concat [OF assms, of "[]"] by (simp add: proxy_linkinfo_def)
  ultimately show ?thesis by blast
qed

theorem linkinfo_batch_witness:
  "parse ex_tables [2, 16, 11, 16, 11, 11] =
     [ex_err\<lparr>msg_data := [2, 16, 11, 16, 11, 11]\<rparr>, ex_locked\<lparr>msg_data := [2, 16, 11, 16, 11, 11]\<rparr>,
      ex_port\<lparr>msg_data := [2, 16, 11, 16, 11, 11]\<rparr>]
   \<and> compat_fix_attrs ex_tables ex_sysfs ex_caps (ex_locked\<lparr>msg_data := [2, 16, 11, 16, 11, 11]\<rparr>) =
       (Some (OSError 13), ex_locked\<lparr>msg_data := [2, 16, 11, 16, 11, 11]\<rparr>)
   \<and> proxy_linkinfo ex_tables ex_sysfs ex_caps [2, 16, 11, 16, 11, 11] =
       Inr (Some (Forward ([2, 16, 11, 16, 11, 11] @ [16, 11] @ [16, 11, 11, 11, 13])))"
proof -
  let ?b = "[2, 16, 11, 16, 11, 11] :: bytes"
  let ?e = "ex_err\<lparr>msg_data := ?b\<rparr>"
  let ?l = "ex_locked\<lparr>msg_data := ?b\<rparr>"
  let ?p = "ex_port\<lparr>msg_data := ?b\<rparr>"
  have p: "parse ex_tables ?b = [?e, ?l, ?p]" by (simp add: ex_tables_def)
  have ev: "msg_event ?e = ''NLMSG_ERROR''" "msg_event ?l \<noteq> ''NLMSG_ERROR''" "msg_event ?p \<noteq> ''NLMSG_ERROR''"
    by (simp_all add: ex_err_def ex_locked_def ex_port_def)
  have de: "msg_data ?e = ?b" by simp
  have l: "compat_fix_attrs ex_tables ex_sysfs ex_caps ?l = (Some (OSError 13), ?l)" by code_simp
  have q: "compat_fix_attrs ex_tables ex_sysfs ex_caps ?p =
      (None, ?p\<lparr>msg_attrs := [(''IFLA_IFNAME'', NStr ''eth0''), (''IFLA_MASTER'', NInt 5),
          (''IFLA_MASTER'', NInt 7), (''IFLA_LINKINFO'', NNest [(''IFLA_INFO_KIND'', NStr ''unknown'')])]\<rparr>)"
    by code_simp
  have el: "encode ex_tables ?l = [16, 11]" by code_simp
  have ep: "encode ex_tables (?p\<lparr>msg_attrs := [(''IFLA_IFNAME'', NStr ''eth0''), (''IFLA_MASTER'', NInt 5),
          (''IFLA_MASTER'', NInt 7), (''IFLA_LINKINFO'', NNest [(''IFLA_INFO_KIND'', NStr ''unknown'')])]\<rparr>)
      = [16, 11, 11, 11, 13]" by code_simp
  have h: "\<forall>msg \<in> set (parse ex_tables ?b). msg_event msg \<noteq> ''NLMSG_ERROR'' \<longrightarrow>
             os_error_or_none (fst (compat_fix_attrs ex_tables ex_sysfs ex_caps msg))"
    using ev l q by (simp add: p os_error_or_none_def)
  from linkinfo_batch [OF h] obtain chunks where
    c: "list_all2 (chunk_ok ex_tables ex_sysfs ex_caps) [?e, ?l, ?p] chunks"
    and r: "proxy_linkinfo ex_tables ex_sysfs ex_caps ?b = Inr (Some (Forward (concat chunks)))"
    using p by auto
  from c obtain c1 c2 c3 where cs: "chunks = [c1, c2, c3]"
    and k1: "chunk_ok ex_tables ex_sysfs ex_caps ?e c1"
    and k2: "chunk_ok ex_tables ex_sysfs ex_caps ?l c2"
    and k3: "chunk_ok ex_tables ex_sysfs ex_caps ?p c3"
    by (auto simp: list_all2_Cons1)
  have v1: "c1 = ?b" using k1 ev(1) de by (simp add: chunk_ok_def)
  have v2: "c2 = [16, 11]" using k2 ev(2) l el by (simp add: chunk_ok_def)
  have v3: "c3 = [16, 11, 11, 11, 13]" using k3 ev(3) q ep by (simp add: chunk_ok_def)
  show ?thesis using p l r cs v1 v2 v3 by simp
qed

text \<open>
  The claim as stated fails on the batch \<open>[ex_err, ex_denied]\<close> parsed from the buffer
  \<open>[2, 16, 11]\<close>. The \<open>NLMSG_ERROR\<close> message is not enriched and not encoded again:
  what is appended for it is its \<open>msg.data\<close>, here the whole input buffer, where
  enriching and encoding it would give \<open>[2, 13]\<close>. And the message whose enrichment
  stops on \<open>OSError\<close> is encoded with the \<open>IFLA_MASTER\<close> pair appended before the
  error (\<open>[16, 11, 11]\<close>), where the message as it came encodes to \<open>[16, 11]\<close>.
\<close>

theorem linkinfo_batch_counterexample:
  "parse ex_tables [2, 16, 11] = [ex_err\<lparr>msg_data := [2, 16, 11]\<rparr>, ex_denied\<lparr>msg_data := [2, 16, 11]\<rparr>]
   \<and> proxy_linkinfo ex_tables ex_sysfs ex_caps [2, 16, 11] =
       Inr (Some (Forward ([2, 16, 11] @ [16, 11, 11])))
   \<and> encode ex_tables (snd (compat_fix_attrs ex_tables ex_sysfs ex_caps (ex_err\<lparr>msg_data := [2, 16, 11]\<rparr>))) = [2, 13]
   \<and> fst (compat_fix_attrs ex_tables ex_sysfs ex_caps (ex_denied\<lparr>msg_data := [2, 16, 11]\<rparr>)) = Some (OSError 13)
   \<and> encode ex_tables (ex_denied\<lparr>msg_data := [2, 16, 11]\<rparr>) = [16, 11]"
  by code_simp

section \<open>Modify-link: the attribute writes\<close>

lemma set_step:
  assumes "\<And>h t. \<exists>rc. spawn sys h [''bash'', ''-c'', t] = Exit rc"
  shows "\<exists>rc. (if bond then compat_set_bond T sys ifname (bond_nla2name T cmd) v h
               else compat_set_bridge T sys ifname (bridge_nla2name T cmd) v h)
            = (Inr rc, h @ [Call (set_argv T bond ifname (cmd, v)) (Exit rc)])"
proof -
  obtain rc where "spawn sys h (set_argv T bond ifname (cmd, v)) = Exit rc"
    using assms [of h] by (auto simp: set_argv_def)
  then show ?thesis
    by (auto simp: compat_set_bond_def compat_set_bridge_def subprocess_call_def set_argv_def)
qed

lemma set_loop_all:
  assumes sh: "\<And>h t. \<exists>rc. spawn sys h [''bash'', ''-c'', t] = Exit rc"
  shows "\<exists>codes. length codes = length pairs \<and>
           set_loop T sys bond ifname pairs code h =
             (Inr (last (code # filter (\<lambda>c. c \<noteq> 0) codes)),
              h @ map (\<lambda>(p, rc). Call (set_argv T bond ifname p) (Exit rc)) (zip pairs codes))"
proof (induction pairs arbitrary: code h)
  case Nil
  then show ?case by simp
next
  case (Cons p pairs)
  obtain cmd v where p: "p = (cmd, v)" by (cases p)
  obtain rc where s: "(if bond then compat_set_bond T sys ifname (bond_nla2name T cmd) v h
               else compat_set_bridge T sys ifname (bridge_nla2name T cmd) v h)
            = (Inr rc, h @ [Call (set_argv T bond ifname (cmd, v)) (Exit rc)])"
    using set_step [OF sh] by blast
  obtain codes where c: "length codes = length pairs"
    and l: "set_loop T sys bond ifname pairs (if rc \<noteq> 0 then rc else code)
              (h @ [Call (set_argv T bond ifname (cmd, v)) (Exit rc)]) =
             (Inr (last ((if rc \<noteq> 0 then rc else code) # filter (\<lambda>c. c \<noteq> 0) codes)),
              (h @ [Call (set_argv T bond ifname (cmd, v)) (Exit rc)]) @
                map (\<lambda>(p, rc). Call (set_argv T bond ifname p) (Exit rc)) (zip pairs codes))"
    using Cons.IH by blast
  have "length (rc # codes) = length (p # pairs)" using c by simp
  moreover have "set_loop T sys bond ifname (p # pairs) code h =
             (Inr (last (code # filter (\<lambda>c. c \<noteq> 0) (rc # codes))),
              h @ map (\<lambda>(p, rc). Call (set_argv T bond ifname p) (Exit rc)) (zip (p # pairs) (rc # codes)))"
    using s l by (simp add: p)
  ultimately show ?case by blast
qed

lemma port_executor_extends:
  "\<exists>es. snd (manage_team_port sys cmd master ifname h) = h @ es"
  "\<exists>es. snd (compat_bridge_port sys nl cmd master ifname h) = h @ es"
  "\<exists>es. snd (compat_bond_port T sys nl cmd master ifname h) = h @ es"
  by (auto simp: manage_team_port_def compat_bridge_port_def compat_bond_port_def map_enoent_def
      check_call_def write_text_def split: option.splits proc_result.splits exn.splits prod.splits sum.splits)

lemma port_setup_extends: "\<exists>es. snd (port_setup T sys nl msg ifname h) = h @ es"
  unfolding port_setup_def
  using port_executor_extends
  by (auto split: option.splits sum.splits nla.splits prod.splits)

text \<open>
  C2, as the code has it. For a bond or bridge request with an info-data block of pairs,
  when every shell write returns an exit status: the effects of the request begin with
  one shell write for each pair, in order (no early abort), and when at least one status
  is non-zero the request raises \<open>OSError\<close> whose errno is the last non-zero status,
  with nothing done after the writes.
\<close>

theorem setlink_writes_all_last_code:
  assumes "setlink_ifname sys (decode T imsg) h = Inr ifname"
    and "setlink_kind_data (decode T imsg) = Inr (Some (NStr k), Some (NNest pairs))"
    and "k = ''bond'' \<or> k = ''bridge''"
    and "\<And>h t. \<exists>rc. spawn sys h [''bash'', ''-c'', t] = Exit rc"
  shows "\<exists>codes rest. length codes = length pairs \<and>
           snd (proxy_setlink T sys nl imsg h) =
             h @ map (\<lambda>(p, rc). Call (set_argv T (k = ''bond'') ifname p) (Exit rc)) (zip pairs codes) @ rest \<and>
           (if filter (\<lambda>c. c \<noteq> 0) codes \<noteq> []
            then fst (proxy_setlink T sys nl imsg h) = Inl (OSError (last (filter (\<lambda>c. c \<noteq> 0) codes)))
                 \<and> rest = []
            else True)"
proof -
  let ?calls = "\<lambda>codes. map (\<lambda>(p, rc). Call (set_argv T (k = ''bond'') ifname p) (Exit rc)) (zip pairs codes)"
  obtain codes where c: "length codes = length pairs"
    and l: "set_loop T sys (k = ''bond'') ifname pairs 0 h =
             (Inr (last (0 # filter (\<lambda>c. c \<noteq> 0) codes)), h @ ?calls codes)"
    using set_loop_all [OF assms(4), of pairs T "k = ''bond''" ifname 0 h] by blast
  let ?failed = "filter (\<lambda>c. c \<noteq> 0) codes"
  show ?thesis
  proof (cases "?failed = []")
    case True
    have sa: "set_attributes T sys ifname (Some (NStr k)) (Some (NNest pairs)) h = (Inr (), h @ ?calls codes)"
      using assms(3) l True by (auto simp: set_attributes_def)
    obtain es where es: "snd (port_setup T sys nl (decode T imsg) ifname (h @ ?calls codes)) = (h @ ?calls codes) @ es"
      using port_setup_extends by blast
    have "snd (proxy_setlink T sys nl imsg h) = h @ ?calls codes @ es"
      using assms(1,2) sa es
      by (auto simp: proxy_setlink_def Let_def split: prod.splits sum.splits)
    then show ?thesis using c True by auto
  next
    case False
    have lf: "last (0 # ?failed) = last ?failed" using False by simp
    have "last ?failed \<in> set ?failed" using False by (rule last_in_set)
    then have nz: "last (0 # ?failed) \<noteq> 0" using lf by simp
    have sa: "set_attributes T sys ifname (Some (NStr k)) (Some (NNest pairs)) h =
        (Inl (OSError (last ?failed)), h @ ?calls codes)"
      using assms(3) l nz lf by (auto simp: set_attributes_def)
    have "proxy_setlink T sys nl imsg h = (Inl (OSError (last ?failed)), h @ ?calls codes)"
      using assms(1,2) sa by (simp add: proxy_setlink_def Let_def)
    then show ?thesis using c False by auto
  qed
qed

theorem setlink_writes_all_last_code_witness:
  "setlink_ifname ex_os (decode ex_tables [5]) [] = Inr (Some (NStr ''bond0''))
   \<and> (\<exists>codes rest. length codes = 3 \<and>
         snd (proxy_setlink ex_tables ex_os ex_caps [5] []) =
           map (\<lambda>(p, rc). Call (set_argv ex_tables True (Some (NStr ''bond0'')) p) (Exit rc))
             (zip [(''IFLA_BOND_MODE'', NInt 1), (''IFLA_BOND_MIIMON'', NInt 100), (''IFLA_BOND_UNSPEC'', NInt 0)] codes) @ rest)"
proof -
  have a: "setlink_ifname ex_os (decode ex_tables [5]) [] = Inr (Some (NStr ''bond0''))" by code_simp
  have b: "setlink_kind_data (decode ex_tables [5]) = Inr (Some (NStr ''bond''),
      Some (NNest [(''IFLA_BOND_MODE'', NInt 1), (''IFLA_BOND_MIIMON'', NInt 100), (''IFLA_BOND_UNSPEC'', NInt 0)]))"
    by code_simp
  have c: "''bond'' = ''bond'' \<or> ''bond'' = ''bridge''" by simp
  have d: "\<And>h t. \<exists>rc. spawn ex_os h [''bash'', ''-c'', t] = Exit rc" by (simp add: ex_os_def)
  from setlink_writes_all_last_code [OF a b c d, of ex_caps]
  obtain codes rest where
    "length codes = length [(''IFLA_BOND_MODE'', NInt 1), (''IFLA_BOND_MIIMON'', NInt 100), (''IFLA_BOND_UNSPEC'', NInt (0::int))]"
    "snd (proxy_setlink ex_tables ex_os ex_caps [5] []) =
       [] @ map (\<lambda>(p, rc). Call (set_argv ex_tables (''bond'' = ''bond'') (Some (NStr ''bond0'')) p) (Exit rc))
         (zip [(''IFLA_BOND_MODE'', NInt 1), (''IFLA_BOND_MIIMON'', NInt 100), (''IFLA_BOND_UNSPEC'', NInt 0)] codes) @ rest"
    by blast
  then show ?thesis using a
    by (intro conjI exI [of _ codes] exI [of _ rest]) simp_all
qed

text \<open>
  The claim as stated fails when two writes fail with different codes: the first
  non-zero status is 1, the request raises errno 2.
\<close>

theorem setlink_first_code_counterexample:
  "proxy_setlink ex_tables ex_os ex_caps [5] [] =
     (Inl (OSError 2),
      [Call [''bash'', ''-c'', ''echo 1 >/sys/class/net/bond0/bonding/mode''] (Exit 1),
       Call [''bash'', ''-c'', ''echo 100 >/sys/class/net/bond0/bonding/miimon''] (Exit 2),
       Call [''bash'', ''-c'', ''echo 0 >/sys/class/net/bond0/bonding/unspec''] (Exit 0)])"
  by code_simp

section \<open>Modify-link: port operations and the verdict\<close>

lemma slaves_path: "prefix ''/sys/class/net/'' (BONDING_SLAVES x) \<and> suffix ''/bonding/slaves'' (BONDING_SLAVES x)"
proof -
  have "BONDING_SLAVES x = ''/sys/class/net/'' @ (x @ ''/bonding/slaves'')"
    by (simp add: BONDING_SLAVES_def)
  moreover have "BONDING_SLAVES x = (''/sys/class/net/'' @ x) @ ''/bonding/slaves''"
    by (simp add: BONDING_SLAVES_def)
  ultimately show ?thesis by (metis prefixI suffixI)
qed

lemma get_interface_first_link:
  assumes "first_link sys h i = Some l"
  shows "get_interface sys h i =
      Inr \<lparr>if_ifname = get_attr ''IFLA_IFNAME'' (msg_attrs l),
           if_master = get_attr ''IFLA_MASTER'' (msg_attrs l),
           if_kind = (case get_attr ''IFLA_LINKINFO'' (msg_attrs l) of
                        Some (NNest li) \<Rightarrow> get_attr ''IFLA_INFO_KIND'' li
                      | _ \<Rightarrow> Some (NStr ''unknown''))\<rparr>"
  using assms
  by (auto simp: first_link_def get_interface_def split: sum.splits list.splits)

lemma link_name_first_link:
  assumes "Option.bind (first_link sys h i) link_name = Some p"
  shows "\<exists>iface. get_interface sys h i = Inr iface \<and> if_ifname iface = Some (NStr p)"
proof -
  from assms obtain l where l: "first_link sys h i = Some l" and n: "link_name l = Some p"
    by (cases "first_link sys h i") auto
  have "get_attr ''IFLA_IFNAME'' (msg_attrs l) = Some (NStr p)"
    using n by (auto simp: link_name_def split: option.splits nla.splits)
  then show ?thesis using get_interface_first_link [OF l] by simp
qed

lemma setlink_ifname_port:
  assumes "port_ifname sys h msg = Some p"
  shows "setlink_ifname sys msg h = Inr (Some (NStr p))"
proof (cases "truthy (get_attr ''IFLA_IFNAME'' (msg_attrs msg))")
  case True
  then show ?thesis using assms
    by (auto simp: port_ifname_def setlink_ifname_def truthy_def split: option.splits nla.splits if_splits)
next
  case False
  then have "Option.bind (first_link sys h (Some (NInt (msg_index msg)))) link_name = Some p"
    using assms
    by (auto simp: port_ifname_def truthy_def split: option.splits nla.splits if_splits)
  then obtain iface where "get_interface sys h (Some (NInt (msg_index msg))) = Inr iface"
    and "if_ifname iface = Some (NStr p)"
    using link_name_first_link by blast
  then show ?thesis using False by (simp add: setlink_ifname_def)
qed

lemma setlink_kind_data_declared:
  assumes "\<forall>v. get_attr ''IFLA_LINKINFO'' (msg_attrs msg) = Some v \<longrightarrow> (\<exists>li. v = NNest li)"
  shows "setlink_kind_data msg = Inr (declared_kind msg, declared_data msg)"
proof (cases "get_attr ''IFLA_LINKINFO'' (msg_attrs msg)")
  case None
  then show ?thesis
    by (simp add: setlink_kind_data_def declared_kind_def declared_data_def truthy_def)
next
  case (Some v)
  then obtain li where "v = NNest li" using assms by blast
  then show ?thesis using Some
    by (simp add: setlink_kind_data_def declared_kind_def declared_data_def truthy_def)
qed

lemma master_interface:
  assumes "master_link sys h msg m = Some ml"
    and "declared_kind ml = Some (NStr ''bond'')"
    and "get_attr ''IFLA_IFNAME'' (msg_attrs ml) = Some (NStr mname)"
  shows "\<exists>mi. (if m = 0 then
                 (case get_interface sys h (Some (NInt (msg_index msg))) of
                    Inl e \<Rightarrow> Inl e
                  | Inr iface \<Rightarrow>
                      (case get_interface sys h (if_master iface) of
                         Inl e \<Rightarrow> Inl e
                       | Inr mi \<Rightarrow> Inr (mi, ''del'')))
               else
                 (case get_interface sys h (Some (NInt m)) of
                    Inl e \<Rightarrow> Inl e
                  | Inr mi \<Rightarrow> Inr (mi, ''add'')))
            = Inr (mi, if m = 0 then ''del'' else ''add'')
          \<and> if_kind mi = Some (NStr ''bond'') \<and> if_ifname mi = Some (NStr mname)"
proof -
  have k: "(case get_attr ''IFLA_LINKINFO'' (msg_attrs ml) of
              Some (NNest li) \<Rightarrow> get_attr ''IFLA_INFO_KIND'' li
            | _ \<Rightarrow> Some (NStr ''unknown'')) = Some (NStr ''bond'')"
    using assms(2) by (auto simp: declared_kind_def split: option.splits nla.splits)
  show ?thesis
  proof (cases "m = 0")
    case True
    then obtain port where p: "first_link sys h (Some (NInt (msg_index msg))) = Some port"
      and q: "first_link sys h (get_attr ''IFLA_MASTER'' (msg_attrs port)) = Some ml"
      using assms(1) by (auto simp: master_link_def split: option.splits)
    show ?thesis
      using True get_interface_first_link [OF p] get_interface_first_link [OF q] k assms(3)
      by simp
  next
    case False
    then have q: "first_link sys h (Some (NInt m)) = Some ml"
      using assms(1) by (simp add: master_link_def)
    show ?thesis
      using False get_interface_first_link [OF q] k assms(3) by simp
  qed
qed

text \<open>
  C6, as the code has it. A modify-link request, with a link-info block (if any) that is
  an attribute block, carries a master index \<open>m\<close>; the port's interface name is \<open>p\<close>
  (the request's own name, else the name of the link with the request's index); the
  attribute writes of the same request (if it has any) raised nothing and left the
  effects \<open>h1\<close>; the master link (for \<open>m = 0\<close> the current master of the port, else the
  link \<open>m\<close>) has kind \<open>bond\<close> and the name \<open>mname\<close>; the capability \<open>create_bond\<close>
  is false. Then the request adds exactly one effect: the text \<open>+p\<close> (attach) or
  \<open>-p\<close> (detach) written to \<open>/sys/class/net/mname/bonding/slaves\<close>. The request is
  not forwarded: it returns \<open>None\<close> when the write succeeds and raises the write's
  \<open>OSError\<close> otherwise.
\<close>

theorem bond_port_one_write:
  assumes "\<forall>v. get_attr ''IFLA_LINKINFO'' (msg_attrs (decode T imsg)) = Some v \<longrightarrow> (\<exists>li. v = NNest li)"
    and "port_ifname sys h (decode T imsg) = Some p"
    and "set_attributes T sys (Some (NStr p)) (declared_kind (decode T imsg))
           (declared_data (decode T imsg)) h = (Inr (), h1)"
    and "get_attr ''IFLA_MASTER'' (msg_attrs (decode T imsg)) = Some (NInt m)"
    and "master_link sys h1 (decode T imsg) m = Some ml"
    and "declared_kind ml = Some (NStr ''bond'')"
    and "get_attr ''IFLA_IFNAME'' (msg_attrs ml) = Some (NStr mname)"
    and "\<not> create_bond nl"
  shows "(let path = ''/sys/class/net/'' @ mname @ ''/bonding/slaves'';
               txt = (if m = 0 then ''-'' else ''+'') @ p;
               r = write_file sys h1 path txt
           in proxy_setlink T sys nl imsg h =
                ((case r of None \<Rightarrow> Inr None | Some e \<Rightarrow> Inl (OSError e)),
                 h1 @ [Write path txt r]))"
proof -
  let ?msg = "decode T imsg"
  let ?path = "''/sys/class/net/'' @ mname @ ''/bonding/slaves''"
  let ?txt = "(if m = 0 then ''-'' else ''+'') @ p"
  let ?r = "write_file sys h1 ?path ?txt"
  have n: "setlink_ifname sys ?msg h = Inr (Some (NStr p))"
    using assms(2) by (rule setlink_ifname_port)
  have kd: "setlink_kind_data ?msg = Inr (declared_kind ?msg, declared_data ?msg)"
    using assms(1) by (rule setlink_kind_data_declared)
  obtain mi where mi: "(if m = 0 then
                 (case get_interface sys h1 (Some (NInt (msg_index ?msg))) of
                    Inl e \<Rightarrow> Inl e
                  | Inr iface \<Rightarrow>
                      (case get_interface sys h1 (if_master iface) of
                         Inl e \<Rightarrow> Inl e
                       | Inr mi \<Rightarrow> Inr (mi, ''del'')))
               else
                 (case get_interface sys h1 (Some (NInt m)) of
                    Inl e \<Rightarrow> Inl e
                  | Inr mi \<Rightarrow> Inr (mi, ''add'')))
            = Inr (mi, if m = 0 then ''del'' else ''add'')"
    and mk: "if_kind mi = Some (NStr ''bond'')" and mn: "if_ifname mi = Some (NStr mname)"
    using master_interface [OF assms(5,6,7)] by blast
  have ps: "port_setup T sys nl ?msg (Some (NStr p)) h1 =
      compat_bond_port T sys nl (if m = 0 then ''del'' else ''add'') (Some (NStr mname)) (Some (NStr p)) h1"
    using assms(4) mi mk mn by (simp add: port_setup_def)
  have bp: "compat_bond_port T sys nl (if m = 0 then ''del'' else ''add'') (Some (NStr mname)) (Some (NStr p)) h1 =
      ((case ?r of None \<Rightarrow> Inr None | Some e \<Rightarrow> Inl (OSError e)), h1 @ [Write ?path ?txt ?r])"
    using assms(8)
    by (auto simp: compat_bond_port_def write_text_def BONDING_SLAVES_def fmt_s_def split: option.splits)
  have "proxy_setlink T sys nl imsg h =
      ((case ?r of None \<Rightarrow> Inr None | Some e \<Rightarrow> Inl (OSError e)), h1 @ [Write ?path ?txt ?r])"
    using n kd assms(3) ps bp
    by (auto simp: proxy_setlink_def Let_def split: option.splits)
  then show ?thesis by (simp add: Let_def)
qed

theorem bond_port_one_write_witness:
  "proxy_setlink ex_tables ex_os ex_caps [6] [] =
     (Inr None, [Write ''/sys/class/net/bond0/bonding/slaves'' ''+eth0'' None])
   \<and> proxy_setlink ex_tables ex_os ex_caps [7] [] =
     (Inr None, [Write ''/sys/class/net/bond0/bonding/slaves'' ''-eth0'' None])
   \<and> get_attr ''IFLA_IFNAME'' (msg_attrs (decode ex_tables [14])) = None
   \<and> proxy_setlink ex_tables ex_os ex_caps [14] [] =
     (Inr None, [Write ''/sys/class/net/bond0/bonding/slaves'' ''+eth0'' None])"
proof -
  have c: "\<not> create_bond ex_caps" by (simp add: ex_caps_def)
  have w: "\<And>p t. write_file ex_os [] p t = None" by (simp add: ex_os_def)
  have k: "declared_kind ex_link_bond0 = Some (NStr ''bond'')" by code_simp
  have mn: "get_attr ''IFLA_IFNAME'' (msg_attrs ex_link_bond0) = Some (NStr ''bond0'')" by code_simp
  have t6: "\<forall>v. get_attr ''IFLA_LINKINFO'' (msg_attrs (decode ex_tables [6])) = Some v \<longrightarrow> (\<exists>li. v = NNest li)"
    by (simp add: ex_tables_def ex_attach_def)
  have t7: "\<forall>v. get_attr ''IFLA_LINKINFO'' (msg_attrs (decode ex_tables [7])) = Some v \<longrightarrow> (\<exists>li. v = NNest li)"
    by (simp add: ex_tables_def ex_detach_def)
  have t14: "\<forall>v. get_attr ''IFLA_LINKINFO'' (msg_attrs (decode ex_tables [14])) = Some v \<longrightarrow> (\<exists>li. v = NNest li)"
    by (simp add: ex_tables_def ex_attach_unnamed_def)
  have n6: "port_ifname ex_os [] (decode ex_tables [6]) = Some ''eth0''" by code_simp
  have n7: "port_ifname ex_os [] (decode ex_tables [7]) = Some ''eth0''" by code_simp
  have n14: "port_ifname ex_os [] (decode ex_tables [14]) = Some ''eth0''" by code_simp
  have u14: "get_attr ''IFLA_IFNAME'' (msg_attrs (decode ex_tables [14])) = None" by code_simp
  have a6: "set_attributes ex_tables ex_os (Some (NStr ''eth0'')) (declared_kind (decode ex_tables [6]))
      (declared_data (decode ex_tables [6])) [] = (Inr (), [])" by code_simp
  have a7: "set_attributes ex_tables ex_os (Some (NStr ''eth0'')) (declared_kind (decode ex_tables [7]))
      (declared_data (decode ex_tables [7])) [] = (Inr (), [])" by code_simp
  have a14: "set_attributes ex_tables ex_os (Some (NStr ''eth0'')) (declared_kind (decode ex_tables [14]))
      (declared_data (decode ex_tables [14])) [] = (Inr (), [])" by code_simp
  have m6: "get_attr ''IFLA_MASTER'' (msg_attrs (decode ex_tables [6])) = Some (NInt 7)" by code_simp
  have m7: "get_attr ''IFLA_MASTER'' (msg_attrs (decode ex_tables [7])) = Some (NInt 0)" by code_simp
  have m14: "get_attr ''IFLA_MASTER'' (msg_attrs (decode ex_tables [14])) = Some (NInt 7)" by code_simp
  have l6: "master_link ex_os [] (decode ex_tables [6]) 7 = Some ex_link_bond0" by code_simp
  have l7: "master_link ex_os [] (decode ex_tables [7]) 0 = Some ex_link_bond0" by code_simp
  have l14: "master_link ex_os [] (decode ex_tables [14]) 7 = Some ex_link_bond0" by code_simp
  have attach: "proxy_setlink ex_tables ex_os ex_caps [6] [] =
     (Inr None, [Write ''/sys/class/net/bond0/bonding/slaves'' ''+eth0'' None])"
    using bond_port_one_write [OF t6 n6 a6 m6 l6 k mn c] by (simp add: w Let_def)
  have detach: "proxy_setlink ex_tables ex_os ex_caps [7] [] =
     (Inr None, [Write ''/sys/class/net/bond0/bonding/slaves'' ''-eth0'' None])"
    using bond_port_one_write [OF t7 n7 a7 m7 l7 k mn c] by (simp add: w Let_def)
  have unnamed: "proxy_setlink ex_tables ex_os ex_caps [14] [] =
     (Inr None, [Write ''/sys/class/net/bond0/bonding/slaves'' ''+eth0'' None])"
    using bond_port_one_write [OF t14 n14 a14 m14 l14 k mn c] by (simp add: w Let_def)
  show ?thesis using attach detach unnamed u14 by simp
qed

text \<open>
  The claim as stated fails on a request that also carries a bond info-data block whose
  write fails: the request \<open>ex_attach_failing\<close> carries the master index 9, the link 9
  is a bond, \<open>create_bond\<close> is false, and the request raises errno 1 after the one
  shell write, with no write to a slaves file.
\<close>

theorem bond_port_counterexample:
  "get_attr ''IFLA_MASTER'' (msg_attrs (decode ex_tables [13])) = Some (NInt 9)
   \<and> master_link ex_os [] (decode ex_tables [13]) 9 = Some ex_link_bond9
   \<and> declared_kind ex_link_bond9 = Some (NStr ''bond'')
   \<and> create_bond ex_caps = False
   \<and> proxy_setlink ex_tables ex_os ex_caps [13] [] =
       (Inl (OSError 1),
        [Call [''bash'', ''-c'', ''echo 1 >/sys/class/net/bond0/bonding/mode''] (Exit 1)])"
  by code_simp

lemma set_loop_effects:
  "\<exists>es. snd (set_loop T sys bond ifname pairs code h) = h @ es \<and> \<not> list_ex port_op_done es"
proof (induction pairs arbitrary: code h)
  case Nil
  then show ?case by simp
next
  case (Cons p pairs)
  obtain cmd v where p: "p = (cmd, v)" by (cases p)
  let ?step = "if bond then compat_set_bond T sys ifname (bond_nla2name T cmd) v h
               else compat_set_bridge T sys ifname (bridge_nla2name T cmd) v h"
  have st: "\<exists>t r. snd ?step = h @ [Call [''bash'', ''-c'', t] r]"
    by (auto simp: compat_set_bond_def compat_set_bridge_def subprocess_call_def
        split: proc_result.splits)
  then obtain t r where s: "snd ?step = h @ [Call [''bash'', ''-c'', t] r]" by blast
  have nd: "\<not> port_op_done (Call [''bash'', ''-c'', t] r)"
    by (simp add: port_op_done_def split: proc_result.splits)
  show ?case
  proof (cases "fst ?step")
    case (Inl e)
    then have "snd (set_loop T sys bond ifname (p # pairs) code h) = h @ [Call [''bash'', ''-c'', t] r]"
      using s by (cases ?step) (auto simp: p)
    then show ?thesis using nd by (intro exI [of _ "[Call [''bash'', ''-c'', t] r]"]) simp
  next
    case (Inr rc)
    obtain es where es: "snd (set_loop T sys bond ifname pairs (if rc \<noteq> 0 then rc else code)
        (h @ [Call [''bash'', ''-c'', t] r])) = (h @ [Call [''bash'', ''-c'', t] r]) @ es"
      and n: "\<not> list_ex port_op_done es"
      using Cons.IH by blast
    have "snd (set_loop T sys bond ifname (p # pairs) code h) = h @ (Call [''bash'', ''-c'', t] r # es)"
      using s Inr es by (cases ?step) (auto simp: p)
    then show ?thesis using nd n by (intro exI [of _ "Call [''bash'', ''-c'', t] r # es"]) simp
  qed
qed

lemma set_attributes_effects:
  "\<exists>es. snd (set_attributes T sys ifname kind infodata h) = h @ es \<and> \<not> list_ex port_op_done es"
proof (cases "(kind = Some (NStr ''bond'') \<or> kind = Some (NStr ''bridge'')) \<and> infodata \<noteq> None")
  case False
  then have "snd (set_attributes T sys ifname kind infodata h) = h @ []"
    by (auto simp: set_attributes_def)
  then show ?thesis by (intro exI [of _ "[]"]) simp
next
  case guard: True
  show ?thesis
  proof (cases "\<exists>pairs. infodata = Some (NNest pairs)")
    case False
    then have "snd (set_attributes T sys ifname kind infodata h) = h @ []"
      using guard by (auto simp: set_attributes_def split: option.splits nla.splits)
    then show ?thesis by (intro exI [of _ "[]"]) simp
  next
    case True
    then obtain pairs where i: "infodata = Some (NNest pairs)" by blast
    let ?l = "set_loop T sys (kind = Some (NStr ''bond'')) ifname pairs 0 h"
    have "snd (set_attributes T sys ifname kind infodata h) = snd ?l"
      using guard i by (cases ?l; cases "fst ?l") (auto simp: set_attributes_def)
    then show ?thesis using set_loop_effects [of T sys "kind = Some (NStr ''bond'')" ifname pairs 0 h]
      by simp
  qed
qed

lemma team_port_result:
  "(fst (manage_team_port sys cmd master ifname h) = Inr None \<and>
      (\<exists>e. snd (manage_team_port sys cmd master ifname h) = h @ [e] \<and> port_op_done e))
   \<or> (fst (manage_team_port sys cmd master ifname h) \<noteq> Inr None \<and>
      (\<exists>es. snd (manage_team_port sys cmd master ifname h) = h @ es \<and> \<not> list_ex port_op_done es))"
  by (auto simp: manage_team_port_def map_enoent_def check_call_def port_op_done_def
      split: option.splits proc_result.splits)

lemma bridge_port_result:
  "(fst (compat_bridge_port sys nl cmd master ifname h) = Inr None \<and>
      (\<exists>e. snd (compat_bridge_port sys nl cmd master ifname h) = h @ [e] \<and> port_op_done e))
   \<or> (fst (compat_bridge_port sys nl cmd master ifname h) \<noteq> Inr None \<and>
      (\<exists>es. snd (compat_bridge_port sys nl cmd master ifname h) = h @ es \<and> \<not> list_ex port_op_done es))"
  if "cmd = ''add'' \<or> cmd = ''del''"
  using that
  by (auto simp: compat_bridge_port_def check_call_def port_op_done_def
      split: option.splits proc_result.splits)

lemma bond_port_result:
  "(fst (compat_bond_port T sys nl cmd master ifname h) = Inr None \<and>
      (\<exists>e. snd (compat_bond_port T sys nl cmd master ifname h) = h @ [e] \<and> port_op_done e))
   \<or> (fst (compat_bond_port T sys nl cmd master ifname h) \<noteq> Inr None \<and>
      (\<exists>es. snd (compat_bond_port T sys nl cmd master ifname h) = h @ es \<and> \<not> list_ex port_op_done es))"
  by (auto simp: compat_bond_port_def write_text_def port_op_done_def slaves_path
      split: option.splits)

lemma port_setup_result:
  "(fst (port_setup T sys nl msg ifname h) = Inr None \<and>
      (\<exists>e. snd (port_setup T sys nl msg ifname h) = h @ [e] \<and> port_op_done e))
   \<or> (fst (port_setup T sys nl msg ifname h) \<noteq> Inr None \<and>
      (\<exists>es. snd (port_setup T sys nl msg ifname h) = h @ es \<and> \<not> list_ex port_op_done es))"
proof -
  have t: "\<And>cmd m. (fst (manage_team_port sys cmd m ifname h) = Inr None \<and>
      (\<exists>e. snd (manage_team_port sys cmd m ifname h) = h @ [e] \<and> port_op_done e))
   \<or> (fst (manage_team_port sys cmd m ifname h) \<noteq> Inr None \<and>
      (\<exists>es. snd (manage_team_port sys cmd m ifname h) = h @ es \<and> \<not> list_ex port_op_done es))"
    by (rule team_port_result)
  have b: "\<And>cmd m. cmd = ''add'' \<or> cmd = ''del'' \<Longrightarrow>
   (fst (compat_bridge_port sys nl cmd m ifname h) = Inr None \<and>
      (\<exists>e. snd (compat_bridge_port sys nl cmd m ifname h) = h @ [e] \<and> port_op_done e))
   \<or> (fst (compat_bridge_port sys nl cmd m ifname h) \<noteq> Inr None \<and>
      (\<exists>es. snd (compat_bridge_port sys nl cmd m ifname h) = h @ es \<and> \<not> list_ex port_op_done es))"
    by (rule bridge_port_result)
  have c: "\<And>cmd m. (fst (compat_bond_port T sys nl cmd m ifname h) = Inr None \<and>
      (\<exists>e. snd (compat_bond_port T sys nl cmd m ifname h) = h @ [e] \<and> port_op_done e))
   \<or> (fst (compat_bond_port T sys nl cmd m ifname h) \<noteq> Inr None \<and>
      (\<exists>es. snd (compat_bond_port T sys nl cmd m ifname h) = h @ es \<and> \<not> list_ex port_op_done es))"
    by (rule bond_port_result)
  have z: "\<And>x. x \<noteq> Inr None \<Longrightarrow> (\<exists>es. h = h @ es \<and> \<not> list_ex port_op_done es)" by simp
  show ?thesis
    unfolding port_setup_def
    by (simp split: option.splits sum.splits nla.splits prod.splits if_splits add: t b c)
qed

text \<open>
  C10. A forward verdict of \<open>proxy_setlink\<close> carries the caller's bytes \<open>imsg\<close>, whatever
  was written before; and the function returns \<open>None\<close> (consumed, nothing forwarded)
  exactly when, among the effects this call added, there is a port operation carried
  out by a legacy backend (team, bridge or bond).
\<close>

theorem setlink_verdict:
  "(case fst (proxy_setlink T sys nl imsg h) of
      Inr (Some (Forward d)) \<Rightarrow> d = imsg
    | _ \<Rightarrow> True)
   \<and> ((fst (proxy_setlink T sys nl imsg h) = Inr None) =
        list_ex port_op_done (drop (length h) (snd (proxy_setlink T sys nl imsg h))))"
proof (cases "setlink_ifname sys (decode T imsg) h")
  case (Inl e)
  then show ?thesis by (simp add: proxy_setlink_def Let_def)
next
  case ifn: (Inr ifname)
  show ?thesis
  proof (cases "setlink_kind_data (decode T imsg)")
    case (Inl e)
    then show ?thesis using ifn by (simp add: proxy_setlink_def Let_def)
  next
    case (Inr kd)
    obtain kind infodata where kd: "kd = (kind, infodata)" by (cases kd)
    obtain r1 h1 where sa: "set_attributes T sys ifname kind infodata h = (r1, h1)"
      by (cases "set_attributes T sys ifname kind infodata h")
    obtain es1 where e1: "h1 = h @ es1" and n1: "\<not> list_ex port_op_done es1"
      using set_attributes_effects [of T sys ifname kind infodata h] sa by auto
    show ?thesis
    proof (cases r1)
      case (Inl e)
      then have "proxy_setlink T sys nl imsg h = (Inl e, h1)"
        using ifn Inr kd sa by (simp add: proxy_setlink_def Let_def)
      then show ?thesis using e1 n1 by simp
    next
      case u: (Inr u)
      obtain r2 h2 where ps: "port_setup T sys nl (decode T imsg) ifname h1 = (r2, h2)"
        by (cases "port_setup T sys nl (decode T imsg) ifname h1")
      have res: "proxy_setlink T sys nl imsg h =
          (case r2 of Inl e \<Rightarrow> Inl e
           | Inr forward \<Rightarrow> if forward \<noteq> None then Inr (Some (Forward imsg)) else Inr None, h2)"
        using ifn Inr kd sa u ps
        by (auto simp: proxy_setlink_def Let_def split: sum.splits)
      from port_setup_result [of T sys nl "decode T imsg" ifname h1] ps
      consider (performed) e where "r2 = Inr None" "h2 = h1 @ [e]" "port_op_done e"
        | (other) es where "r2 \<noteq> Inr None" "h2 = h1 @ es" "\<not> list_ex port_op_done es"
        by auto
      then show ?thesis
      proof cases
        case performed
        then show ?thesis using res e1 by simp
      next
        case other
        then show ?thesis using res e1 n1
          by (auto split: sum.splits)
      qed
    qed
  qed
qed

theorem setlink_verdict_witness:
  "fst (proxy_setlink ex_tables ex_os ex_caps [8] []) = Inr (Some (Forward [8]))
   \<and> snd (proxy_setlink ex_tables ex_os ex_caps [8] []) =
       [Call [''bash'', ''-c'', ''echo 0 >/sys/class/net/bond0/bonding/unspec''] (Exit 0)]
   \<and> fst (proxy_setlink ex_tables ex_os ex_caps [6] []) = Inr None
   \<and> list_ex port_op_done (drop (length ([] :: effect list)) (snd (proxy_setlink ex_tables ex_os ex_caps [6] [])))"
proof -
  have "fst (proxy_setlink ex_tables ex_os ex_caps [8] []) = Inr (Some (Forward [8]))"
    by code_simp
  then have f: "\<exists>d. fst (proxy_setlink ex_tables ex_os ex_caps [8] []) = Inr (Some (Forward d))"
    by blast
  have s: "snd (proxy_setlink ex_tables ex_os ex_caps [8] []) =
       [Call [''bash'', ''-c'', ''echo 0 >/sys/class/net/bond0/bonding/unspec''] (Exit 0)]"
    by code_simp
  have n: "fst (proxy_setlink ex_tables ex_os ex_caps [6] []) = Inr None" by code_simp
  from f setlink_verdict [where T = ex_tables and sys = ex_os and nl = ex_caps and imsg = "[8]" and h = "[]"]
  have "fst (proxy_setlink ex_tables ex_os ex_caps [8] []) = Inr (Some (Forward [8]))" by auto
  moreover from n setlink_verdict [where T = ex_tables and sys = ex_os and nl = ex_caps and imsg = "[6]" and h = "[]"]
  have "list_ex port_op_done (drop (length ([] :: effect list)) (snd (proxy_setlink ex_tables ex_os ex_caps [6] [])))"
    by simp
  ultimately show ?thesis using s n by simp
qed

section \<open>Create-link: routing\<close>

lemma first_kind: 
  "(case map snd (filter (\<lambda>x. fst x = n) li) of [] \<Rightarrow> None | k # ks \<Rightarrow> Some k) = get_attr n li"
  by (induction li) auto

lemma newlink_kind_declared:
  assumes "\<forall>v. get_attr ''IFLA_LINKINFO'' (msg_attrs msg) = Some v \<longrightarrow> (\<exists>li. v = NNest li)"
  shows "newlink_kind msg = Inr (declared_kind msg)"
proof (cases "get_attr ''IFLA_LINKINFO'' (msg_attrs msg)")
  case None
  then show ?thesis by (simp add: newlink_kind_def declared_kind_def)
next
  case (Some v)
  then obtain li where v: "v = NNest li" using assms by blast
  have "(case map snd (filter (\<lambda>x. fst x = ''IFLA_INFO_KIND'') li) of [] \<Rightarrow> Inr None | k # ks \<Rightarrow> Inr (Some k))
      = (Inr (case map snd (filter (\<lambda>x. fst x = ''IFLA_INFO_KIND'') li) of [] \<Rightarrow> None | k # ks \<Rightarrow> Some k) :: exn + nla option)"
    by (simp split: list.splits)
  then show ?thesis using Some v
    by (simp add: newlink_kind_def declared_kind_def first_kind)
qed

text \<open>
  C7. For a create-link request whose link-info block, if it has one, is an attribute
  block (what the decoder produces): \<open>proxy_newlink\<close> does what the specification's
  routing says for the declared kind. It runs the tun/tap (ioctl) executor for
  \<open>tuntap\<close>, the team daemon executor for \<open>team\<close>, the bond sysfs executor for
  \<open>bond\<close> exactly when \<open>create_bond\<close> is false, the bridge tool executor for
  \<open>bridge\<close> exactly when \<open>create_bridge\<close> is false, and in every other case (kind
  absent or not one of these, or the capability present) returns the forward verdict with
  the request's own bytes and does nothing else.
\<close>

theorem newlink_routing:
  assumes "\<forall>v. get_attr ''IFLA_LINKINFO'' (msg_attrs (decode T imsg)) = Some v \<longrightarrow> (\<exists>li. v = NNest li)"
  shows "proxy_newlink T machine sys nl imsg h =
           (case route_spec nl (declared_kind (decode T imsg)) of
              Ioctl_executor \<Rightarrow> manage_tuntap machine sys (decode T imsg) h
            | Daemon_executor \<Rightarrow> manage_team T sys (decode T imsg) h
            | Bond_sysfs_executor \<Rightarrow> compat_create_bond T sys (decode T imsg) h
            | Bridge_tool_executor \<Rightarrow> compat_create_bridge sys (decode T imsg) h
            | Forward_unmodified \<Rightarrow> (Inr (Some (Forward imsg)), h))"
  using newlink_kind_declared [OF assms]
  by (simp add: proxy_newlink_def route_spec_def Let_def)

theorem newlink_routing_witness:
  "route_spec ex_caps (declared_kind (decode ex_tables [11])) = Bond_sysfs_executor
   \<and> proxy_newlink ex_tables ''x86_64'' ex_os ex_caps [11] [] =
       (Inr None, [Write ''/sys/class/net/bonding_masters'' ''+bond1'' None])
   \<and> route_spec ex_caps (declared_kind (decode ex_tables [12])) = Forward_unmodified
   \<and> proxy_newlink ex_tables ''x86_64'' ex_os ex_caps [12] [] = (Inr (Some (Forward [12])), [])"
proof -
  have a: "\<forall>v. get_attr ''IFLA_LINKINFO'' (msg_attrs (decode ex_tables [11])) = Some v \<longrightarrow> (\<exists>li. v = NNest li)"
    by (simp add: ex_tables_def ex_new_bond_def)
  have b: "\<forall>v. get_attr ''IFLA_LINKINFO'' (msg_attrs (decode ex_tables [12])) = Some v \<longrightarrow> (\<exists>li. v = NNest li)"
    by (simp add: ex_tables_def ex_new_vlan_def)
  have r1: "route_spec ex_caps (declared_kind (decode ex_tables [11])) = Bond_sysfs_executor" by code_simp
  have r2: "route_spec ex_caps (declared_kind (decode ex_tables [12])) = Forward_unmodified" by code_simp
  have c: "compat_create_bond ex_tables ex_os (decode ex_tables [11]) [] =
      (Inr None, [Write ''/sys/class/net/bonding_masters'' ''+bond1'' None])" by code_simp
  show ?thesis
    using newlink_routing [OF a, of "''x86_64''" ex_os ex_caps "[]"]
      newlink_routing [OF b, of "''x86_64''" ex_os ex_caps "[]"] r1 r2 c
    by simp
qed

section \<open>Create-link: validation of a tun/tap request\<close>

lemma tuntap_bad_mode:
  assumes "declared_mode msg \<noteq> Some (NStr ''tun'')" and "declared_mode msg \<noteq> Some (NStr ''tap'')"
  shows "\<exists>e. manage_tuntap machine sys msg h = (Inl e, h)"
proof (cases "tun_ioctls machine")
  case None
  then show ?thesis by (simp add: manage_tuntap_def)
next
  case (Some no)
  show ?thesis
  proof (cases "tuntap_infodata msg")
    case (Inl e)
    then show ?thesis using Some by (simp add: manage_tuntap_def)
  next
    case (Inr infodata)
    then have "declared_mode msg = get_attr ''IFTUN_MODE'' infodata"
      by (auto simp: tuntap_infodata_def declared_mode_def split: option.splits nla.splits)
    then have "tuntap_mode_flags infodata = Inl (ValueError ''invalid mode'')"
      using assms by (simp add: tuntap_mode_flags_def)
    then show ?thesis using Some Inr by (simp add: manage_tuntap_def)
  qed
qed

lemma tuntap_long_name:
  assumes "get_attr ''IFLA_IFNAME'' (msg_attrs msg) = Some (NStr n)" and "length n > 16"
  shows "\<exists>e. manage_tuntap machine sys msg h = (Inl e, h)"
proof -
  have "\<And>f. tuntap_ifr msg f = Inl (ValueError ''ifname too long'')"
    using assms by (simp add: tuntap_ifr_def IFNAMSIZ_def)
  then show ?thesis
    by (simp add: manage_tuntap_def split: option.splits sum.splits)
qed

lemma tuntap_no_arch:
  assumes "TUNSETIFF machine = None"
  shows "manage_tuntap machine sys msg h = (Inl (NetlinkError EOPNOTSUPP ''Arch not supported''), h)"
  using assms by (simp add: manage_tuntap_def TUNSETIFF_def split: option.splits)

text \<open>
  C9. A tun/tap create request whose mode is absent or neither \<open>tun\<close> nor \<open>tap\<close>, or
  whose interface name is longer than 16 characters, or that arrives on a machine with
  no known ioctl numbers, raises and leaves the effects as they were: the control device
  is not opened and no ioctl is issued. On a machine with no known ioctl numbers the
  exception is the not-supported error (EOPNOTSUPP).
\<close>

theorem tuntap_rejected_before_device:
  assumes "(declared_mode msg \<noteq> Some (NStr ''tun'') \<and> declared_mode msg \<noteq> Some (NStr ''tap''))
      \<or> (\<exists>n. get_attr ''IFLA_IFNAME'' (msg_attrs msg) = Some (NStr n) \<and> length n > 16)
      \<or> TUNSETIFF machine = None"
  shows "(\<exists>e. manage_tuntap machine sys msg h = (Inl e, h))
      \<and> (TUNSETIFF machine = None \<longrightarrow>
           manage_tuntap machine sys msg h = (Inl (NetlinkError EOPNOTSUPP ''Arch not supported''), h))"
proof -
  have rej: "\<exists>e. manage_tuntap machine sys msg h = (Inl e, h)"
    using assms
  proof (elim disjE)
    assume "declared_mode msg \<noteq> Some (NStr ''tun'') \<and> declared_mode msg \<noteq> Some (NStr ''tap'')"
    then show ?thesis using tuntap_bad_mode by blast
  next
    assume "\<exists>n. get_attr ''IFLA_IFNAME'' (msg_attrs msg) = Some (NStr n) \<and> length n > 16"
    then obtain n where "get_attr ''IFLA_IFNAME'' (msg_attrs msg) = Some (NStr n)" "length n > 16"
      by blast
    then show ?thesis by (rule tuntap_long_name)
  next
    assume "TUNSETIFF machine = None"
    then show ?thesis using tuntap_no_arch by blast
  qed
  show ?thesis using rej tuntap_no_arch by blast
qed

theorem tuntap_rejected_before_device_witness:
  "manage_tuntap ''x86_64'' ex_os ex_tuntap_no_mode [] = (Inl (ValueError ''invalid mode''), [])
   \<and> manage_tuntap ''x86_64'' ex_os ex_tuntap_long [] = (Inl (ValueError ''ifname too long''), [])
   \<and> manage_tuntap ''armv7l'' ex_os ex_tuntap [] = (Inl (NetlinkError 95 ''Arch not supported''), [])"
proof -
  have m: "declared_mode ex_tuntap_no_mode \<noteq> Some (NStr ''tun'') \<and> declared_mode ex_tuntap_no_mode \<noteq> Some (NStr ''tap'')"
    by code_simp
  have n: "\<exists>n. get_attr ''IFLA_IFNAME'' (msg_attrs ex_tuntap_long) = Some (NStr n) \<and> length n > 16"
    by (simp add: ex_tuntap_long_def)
  have a: "TUNSETIFF ''armv7l'' = None" by code_simp
  have e1: "fst (manage_tuntap ''x86_64'' ex_os ex_tuntap_no_mode []) = Inl (ValueError ''invalid mode'')"
    by code_simp
  have e2: "fst (manage_tuntap ''x86_64'' ex_os ex_tuntap_long []) = Inl (ValueError ''ifname too long'')"
    by code_simp
  have t1: "\<exists>e. manage_tuntap ''x86_64'' ex_os ex_tuntap_no_mode [] = (Inl e, [])"
    using tuntap_rejected_before_device [of ex_tuntap_no_mode "''x86_64''" ex_os "[]"] m by blast
  have t2: "\<exists>e. manage_tuntap ''x86_64'' ex_os ex_tuntap_long [] = (Inl e, [])"
    using tuntap_rejected_before_device [of ex_tuntap_long "''x86_64''" ex_os "[]"] n by blast
  have r3: "manage_tuntap ''armv7l'' ex_os ex_tuntap [] = (Inl (NetlinkError 95 ''Arch not supported''), [])"
    using tuntap_rejected_before_device [of ex_tuntap "''armv7l''" ex_os "[]"] a
    by (simp add: EOPNOTSUPP_def)
  obtain x1 where x1: "manage_tuntap ''x86_64'' ex_os ex_tuntap_no_mode [] = (Inl x1, [])"
    using t1 by blast
  obtain x2 where x2: "manage_tuntap ''x86_64'' ex_os ex_tuntap_long [] = (Inl x2, [])"
    using t2 by blast
  have r1: "manage_tuntap ''x86_64'' ex_os ex_tuntap_no_mode [] = (Inl (ValueError ''invalid mode''), [])"
    using x1 e1 by simp
  have r2: "manage_tuntap ''x86_64'' ex_os ex_tuntap_long [] = (Inl (ValueError ''ifname too long''), [])"
    using x2 e2 by simp
  show ?thesis using r1 r2 r3 by simp
qed

text \<open>A request that passes the checks, for comparison: the device is opened, then the ioctls.\<close>

lemma tuntap_accepted_example:
  "manage_tuntap ''x86_64'' ex_os ex_tuntap [] =
     (Inr None,
      [Os_open ''/dev/net/tun'' None,
       Ioctl 0x400454ca (Arg_ifr (''tap0'' @ replicate 12 (char_of (0::nat))) 0x1001) None,
       Ioctl 0x400454cc (Arg_nla (NInt 1000)) None,
       Ioctl 0x400454cb (Arg_nla (NInt 1)) None,
       Os_close])"
  by code_simp

section \<open>The wrapper: what holds at its exit\<close>

lemma sync_inv_init: "sync_inv out sync_init"
  by (simp add: sync_inv_def sync_init_def)

lemma sync_inv_step:
  assumes "sync_step ev ifname out s s'" and "sync_inv out s"
  shows "sync_inv out s'"
  using assms
  by (induction rule: sync_step.induct)
     (auto simp: sync_inv_def terminated_def bound_def split: wrapper_pc.splits monitor_state.splits)

lemma sync_inv_reachable:
  assumes "reachable ev ifname out s"
  shows "sync_inv out s"
  using assms unfolding reachable_def
  by (induction rule: rtranclp_induct) (auto intro: sync_inv_init sync_inv_step)

lemma reachable_init: "reachable ev ifname out sync_init"
  by (simp add: reachable_def)

lemma reachable_step:
  "reachable ev ifname out s \<Longrightarrow> sync_step ev ifname out s s' \<Longrightarrow> reachable ev ifname out s'"
  by (auto simp: reachable_def)

text \<open>
  The run in which no notification ever arrives: the executor's outcome \<open>out\<close> is
  stored, the byte is written, the watcher sees the control pipe readable and returns
  from the \<open>else\<close> branch, the wrapper joins it, closes both ends and leaves.
\<close>

lemma cancelled_run:
  "reachable ev ifname out
     \<lparr>wpc = W_exit, mon = M_returned False, rcmd_open = False, cmd_open = False,
      pipe_written = 1, queue = [], ret = Some out\<rparr>"
proof -
  let ?st = "\<lambda>pc m r c w x.
     \<lparr>wpc = pc, mon = m, rcmd_open = r, cmd_open = c, pipe_written = w, queue = [], ret = x\<rparr>"
  have s0: "reachable ev ifname out (?st W_pipe M_unstarted False False 0 None)"
    using reachable_init [of ev ifname out] by (simp add: sync_init_def)
  have "sync_step ev ifname out (?st W_pipe M_unstarted False False 0 None)
          (?st W_start M_unstarted True True 0 None)"
    using w_pipe [of "?st W_pipe M_unstarted False False 0 None" ev ifname out] by simp
  then have s1: "reachable ev ifname out (?st W_start M_unstarted True True 0 None)"
    using s0 reachable_step by blast
  have "sync_step ev ifname out (?st W_start M_unstarted True True 0 None)
          (?st W_call M_setup True True 0 None)"
    using w_start [of "?st W_start M_unstarted True True 0 None" ev ifname out] by simp
  then have s2: "reachable ev ifname out (?st W_call M_setup True True 0 None)"
    using s1 reachable_step by blast
  have "sync_step ev ifname out (?st W_call M_setup True True 0 None)
          (?st W_call (M_poll (PStr ev)) True True 0 None)"
    using m_bind [of "?st W_call M_setup True True 0 None" ev ifname out] by simp
  then have s3: "reachable ev ifname out (?st W_call (M_poll (PStr ev)) True True 0 None)"
    using s2 reachable_step by blast
  have "sync_step ev ifname out (?st W_call (M_poll (PStr ev)) True True 0 None)
          (?st W_write (M_poll (PStr ev)) True True 0 (Some out))"
    using w_call [of "?st W_call (M_poll (PStr ev)) True True 0 None" ev ifname out] by simp
  then have s4: "reachable ev ifname out (?st W_write (M_poll (PStr ev)) True True 0 (Some out))"
    using s3 reachable_step by blast
  have "sync_step ev ifname out (?st W_write (M_poll (PStr ev)) True True 0 (Some out))
          (?st W_join (M_poll (PStr ev)) True True 1 (Some out))"
    using w_write [of "?st W_write (M_poll (PStr ev)) True True 0 (Some out)" ev ifname out] by simp
  then have s5: "reachable ev ifname out (?st W_join (M_poll (PStr ev)) True True 1 (Some out))"
    using s4 reachable_step by blast
  have "sync_step ev ifname out (?st W_join (M_poll (PStr ev)) True True 1 (Some out))
          (?st W_join (M_for [(Rcmd, 1)] (PStr ev)) True True 1 (Some out))"
    using m_poll [of "?st W_join (M_poll (PStr ev)) True True 1 (Some out)" "PStr ev" "[(Rcmd, 1)]" ev ifname out]
    by (simp add: ready_def)
  then have s6: "reachable ev ifname out (?st W_join (M_for [(Rcmd, 1)] (PStr ev)) True True 1 (Some out))"
    using s5 reachable_step by blast
  have "sync_step ev ifname out (?st W_join (M_for [(Rcmd, 1)] (PStr ev)) True True 1 (Some out))
          (?st W_join (M_returned False) True True 1 (Some out))"
    using m_for_rcmd [of "?st W_join (M_for [(Rcmd, 1)] (PStr ev)) True True 1 (Some out)" 1 "[]" "PStr ev" ev ifname out]
    by simp
  then have s7: "reachable ev ifname out (?st W_join (M_returned False) True True 1 (Some out))"
    using s6 reachable_step by blast
  have "sync_step ev ifname out (?st W_join (M_returned False) True True 1 (Some out))
          (?st W_close_rcmd (M_returned False) True True 1 (Some out))"
    using w_join [of "?st W_join (M_returned False) True True 1 (Some out)" ev ifname out]
    by (simp add: terminated_def)
  then have s8: "reachable ev ifname out (?st W_close_rcmd (M_returned False) True True 1 (Some out))"
    using s7 reachable_step by blast
  have "sync_step ev ifname out (?st W_close_rcmd (M_returned False) True True 1 (Some out))
          (?st W_close_cmd (M_returned False) False True 1 (Some out))"
    using w_close_rcmd [of "?st W_close_rcmd (M_returned False) True True 1 (Some out)" ev ifname out]
    by simp
  then have s9: "reachable ev ifname out (?st W_close_cmd (M_returned False) False True 1 (Some out))"
    using s8 reachable_step by blast
  have "sync_step ev ifname out (?st W_close_cmd (M_returned False) False True 1 (Some out))
          (?st W_exit (M_returned False) False False 1 (Some out))"
    using w_close_cmd [of "?st W_close_cmd (M_returned False) False True 1 (Some out)" ev ifname out]
    by simp
  then show ?thesis
    using s9 reachable_step by blast
qed

text \<open>
  The run in which the thread cannot be started: the pipe is open, \<open>t.start()\<close> raises,
  and the wrapper leaves with that exception, outside the \<open>try\<close>.
\<close>

lemma start_raises_run:
  "reachable ev ifname out
     \<lparr>wpc = W_setup_raised RuntimeError, mon = M_unstarted, rcmd_open = True, cmd_open = True,
      pipe_written = 0, queue = [], ret = None\<rparr>"
proof -
  let ?st = "\<lambda>pc r c.
     \<lparr>wpc = pc, mon = M_unstarted, rcmd_open = r, cmd_open = c, pipe_written = 0, queue = [],
      ret = (None :: (exn + 'a) option)\<rparr>"
  have s0: "reachable ev ifname out (?st W_pipe False False)"
    using reachable_init [of ev ifname out] by (simp add: sync_init_def)
  have "sync_step ev ifname out (?st W_pipe False False) (?st W_start True True)"
    using w_pipe [of "?st W_pipe False False" ev ifname out] by simp
  then have s1: "reachable ev ifname out (?st W_start True True)"
    using s0 reachable_step by blast
  have "sync_step ev ifname out (?st W_start True True) (?st (W_setup_raised RuntimeError) True True)"
    using w_start_raise [of "?st W_start True True" RuntimeError ev ifname out] by simp
  then show ?thesis
    using s1 reachable_step by blast
qed

text \<open>
  C5, as the code has it. Whatever the executor does (\<open>out\<close> is the value it returns
  or the exception it raises), in every state of every run in which the wrapper has left
  and the watcher thread had been started, that is on every exit path that goes through
  the call of the executor: the wrapper left through the \<open>finally\<close> block, the byte
  has been written to the control pipe, the watcher thread has ended, both ends of the
  pipe are closed, and what the wrapper hands to its caller is the executor's own outcome.
\<close>

theorem sync_cleanup_after_start:
  assumes "reachable ev ifname out s" and "exited s" and "mon s \<noteq> M_unstarted"
  shows "wpc s = W_exit \<and> 0 < pipe_written s \<and> terminated (mon s) \<and> \<not> rcmd_open s
       \<and> \<not> cmd_open s \<and> ret s = Some out"
  using sync_inv_reachable [OF assms(1)] assms(2,3)
  by (auto simp: sync_inv_def exited_def split: wrapper_pc.splits)

theorem sync_cleanup_after_start_witness:
  "reachable ''RTM_NEWLINK'' (Some (NStr ''br0'')) (Inl (CalledProcessError 1) :: exn + verdict option)
     \<lparr>wpc = W_exit, mon = M_returned False, rcmd_open = False, cmd_open = False,
      pipe_written = 1, queue = [], ret = Some (Inl (CalledProcessError 1))\<rparr>
   \<and> terminated (M_returned False)"
proof -
  let ?s = "\<lparr>wpc = W_exit, mon = M_returned False, rcmd_open = False, cmd_open = False,
      pipe_written = 1, queue = [], ret = Some (Inl (CalledProcessError 1) :: exn + verdict option)\<rparr>"
  have r: "reachable ''RTM_NEWLINK'' (Some (NStr ''br0'')) (Inl (CalledProcessError 1)) ?s"
    by (rule cancelled_run)
  have e: "exited ?s" by (simp add: exited_def)
  have m: "mon ?s \<noteq> M_unstarted" by simp
  from sync_cleanup_after_start [OF r e m] have "terminated (mon ?s)" by blast
  then show ?thesis using r by simp
qed

text \<open>
  The claim as stated fails on the exit before the \<open>try\<close>: when \<open>t.start()\<close> raises
  (or the lookup in \<open>RTM_VALUES\<close> does), the wrapper has left, nothing was written to
  the control pipe and both ends of the pipe are open.
\<close>

theorem sync_setup_exit_counterexample:
  "reachable ''RTM_NEWLINK'' (Some (NStr ''br0'')) (Inr None :: exn + verdict option)
     \<lparr>wpc = W_setup_raised RuntimeError, mon = M_unstarted, rcmd_open = True, cmd_open = True,
      pipe_written = 0, queue = [], ret = None\<rparr>
   \<and> exited (\<lparr>wpc = W_setup_raised RuntimeError, mon = M_unstarted, rcmd_open = True, cmd_open = True,
      pipe_written = 0, queue = [], ret = None\<rparr> :: verdict option sync_state)"
  using start_raises_run [of "''RTM_NEWLINK''" "Some (NStr ''br0'')" "Inr None :: exn + verdict option"]
  by (simp add: exited_def)

section \<open>The wrapper: success without the notification\<close>

text \<open>
  The comparison of line 241 never holds: when it is made, \<open>event\<close> is the integer
  poll mask of the loop variable, and the event name of a notification is a string. So
  the watcher never returns from the comparison.
\<close>

lemma never_matches: "\<not> matches (PInt pm) ifname msg"
  by (simp add: matches_def)

lemma watcher_never_observes:
  assumes "reachable ev ifname out s"
  shows "mon s \<noteq> M_returned True"
  using assms unfolding reachable_def
proof (induction rule: rtranclp_induct)
  case base
  then show ?case by (simp add: sync_init_def)
next
  case (step s s')
  from step.hyps(2) step.IH show ?case
    by (induction rule: sync_step.induct) (auto simp: never_matches list_ex_iff)
qed

text \<open>
  C4 at the input where the code departs from it: the executor returns (here \<open>None\<close>,
  as \<open>manage_tuntap\<close> does) and no notification has arrived. The wrapper writes the
  cancellation byte at once, the watcher ends on the control pipe without having seen any
  notification (\<open>M_returned False\<close>, empty queue), and the wrapper returns the
  executor's value. (That a wrapper whose thread was started leaves only after the watcher
  has ended does hold: it is part of the invariant \<open>sync_inv\<close>.)
\<close>

theorem sync_success_without_notification:
  "reachable ''RTM_NEWLINK'' (Some (NStr ''tap0'')) (Inr None :: exn + verdict option)
     \<lparr>wpc = W_exit, mon = M_returned False, rcmd_open = False, cmd_open = False,
      pipe_written = 1, queue = [], ret = Some (Inr None)\<rparr>"
  by (rule cancelled_run)


end
